theory Spec2Isabelle
  imports Complex_Main "HOL-Library.Word"
begin

section \<open>Strings as the server uses them\<close>

text \<open>
  The model follows \<open>server/server.js\<close>. JavaScript strings are modelled as
  \<^typ>\<open>string\<close>; every character that the source compares against is ASCII.
\<close>

text \<open>\<open>s.startsWith(p)\<close>\<close>

definition startsWith :: "string \<Rightarrow> string \<Rightarrow> bool" where
  "startsWith s p = (take (length p) s = p)"

text \<open>\<open>s.includes(p)\<close> on strings: \<open>p\<close> occurs at some position of \<open>s\<close>.\<close>

fun includes_str :: "string \<Rightarrow> string \<Rightarrow> bool" where
  "includes_str [] p = (p = [])"
| "includes_str (c # cs) p = (startsWith (c # cs) p \<or> includes_str cs p)"

text \<open>The position of a character in a table, if it occurs there.\<close>

fun index_of :: "char \<Rightarrow> string \<Rightarrow> nat option" where
  "index_of c [] = None"
| "index_of c (d # ds) = (if c = d then Some 0 else map_option Suc (index_of c ds))"

text \<open>
  Canonicalisation of a character under the \<open>i\<close> flag of a regular expression: ASCII
  lower-case letters are compared through their upper-case form, every other character
  is compared as it is.
\<close>

definition canonicalize :: "char \<Rightarrow> char" where
  "canonicalize c =
     (case index_of c ''abcdefghijklmnopqrstuvwxyz'' of
        None \<Rightarrow> c
      | Some i \<Rightarrow> ''ABCDEFGHIJKLMNOPQRSTUVWXYZ'' ! i)"

text \<open>Comparison of an input segment with a literal of the pattern, with or without \<open>i\<close>.\<close>

definition lit_eq :: "bool \<Rightarrow> string \<Rightarrow> string \<Rightarrow> bool" where
  "lit_eq ci s lit = (if ci then map canonicalize s = map canonicalize lit else s = lit)"

text \<open>
  The two regular expressions of the source, \<open>/\.(mp4|webm|mov)$/i\<close> and
  \<open>/\.(webm|mp4|mov)$/\<close>, have the shape "a dot, one of the alternatives, end of
  input". \<open>match_here\<close> tries the pattern at the start of the remaining input, with
  the alternatives in the order they are written; \<open>regex_search\<close> tries every start
  position from the left and returns the index of the first match, as
  \<open>RegExp.prototype.exec\<close> does.
\<close>

fun match_here :: "bool \<Rightarrow> string list \<Rightarrow> string \<Rightarrow> bool" where
  "match_here ci alts [] = False"
| "match_here ci alts (c # r) = (c = CHR ''.'' \<and> list_ex (lit_eq ci r) alts)"

fun regex_search :: "bool \<Rightarrow> string list \<Rightarrow> string \<Rightarrow> nat option" where
  "regex_search ci alts [] = None"
| "regex_search ci alts (c # r) =
     (if match_here ci alts (c # r) then Some 0
      else map_option Suc (regex_search ci alts r))"

text \<open>\<open>s.match(/\.(mp4|webm|mov)$/i)\<close> is truthy exactly when the search finds a match.\<close>

definition match_video_ext :: "string \<Rightarrow> bool" where
  "match_video_ext s = (regex_search True [''mp4'', ''webm'', ''mov''] s \<noteq> None)"

text \<open>
  \<open>s.replace(/\.(webm|mp4|mov)$/, rep)\<close>: the first match is replaced; as the pattern
  ends at the end of the input, the match is the rest of the string.
\<close>

definition replace_ext :: "string \<Rightarrow> string \<Rightarrow> string" where
  "replace_ext s rep =
     (case regex_search False [''webm'', ''mp4'', ''mov''] s of
        None \<Rightarrow> s
      | Some i \<Rightarrow> take i s @ rep)"

text \<open>Decimal rendering of a non-negative integer, as a template literal renders \<open>Date.now()\<close>.\<close>

definition digit_char :: "nat \<Rightarrow> char" where
  "digit_char d = ''0123456789'' ! d"

function show_nat :: "nat \<Rightarrow> string" where
  "show_nat n = (if n < 10 then [digit_char n] else show_nat (n div 10) @ [digit_char (n mod 10)])"
  by pat_completeness auto
termination
  by (relation "measure id") auto

declare show_nat.simps [simp del]

section \<open>The boundary: multer\<close>

text \<open>
  The file part of a request as multer presents it to the callbacks of the source, with
  its content. The headers of the part have been parsed before the source sees them:
  \<open>part_originalname\<close> is \<open>file.originalname\<close> (the base name of the name the
  client gave) and \<open>part_mimetype\<close> is \<open>file.mimetype\<close> (the declared media type in
  lower case, without parameters). The model starts from these values; how they are
  obtained from the bytes of the request is the parser's business.
\<close>

record upload_part =
  part_originalname :: string
  part_mimetype :: string
  part_content :: "8 word list"

text \<open>\<open>req.file\<close> as multer's disk storage fills it in.\<close>

record file_info =
  originalname :: string
  mimetype :: string
  size_f :: nat
  path :: string

text \<open>A JavaScript \<open>Error\<close>: its message and its stack trace.\<close>

datatype js_error = Error (message: string) (stack: string)

definition validTypes :: "string list" where
  "validTypes = [''video/mp4'', ''video/webm'', ''video/quicktime'', ''video/x-msvideo'',
                 ''application/octet-stream'']"

text \<open>
  \<open>fileFilter\<close> calls back with \<open>(null, true)\<close> or with an error whose message quotes the
  declared media type. The stack of the error is what \<open>new Error\<close> records; only its
  first line is known from the source.
\<close>

definition invalid_type_message :: "string \<Rightarrow> string" where
  "invalid_type_message m = ''Invalid file type: '' @ m @ ''. Only video files are allowed''"

definition fileFilter :: "upload_part \<Rightarrow> js_error + bool" where
  "fileFilter file =
     (if part_mimetype file \<in> set validTypes \<or>
         startsWith (part_mimetype file) ''video/'' \<or>
         match_video_ext (part_originalname file)
      then Inr True
      else Inl (Error (invalid_type_message (part_mimetype file))
                      (''Error: '' @ invalid_type_message (part_mimetype file))))"

text \<open>The \<open>filename\<close> callback of the disk storage.\<close>

definition filename :: "nat \<Rightarrow> upload_part \<Rightarrow> string" where
  "filename date_now file =
     (let ext = (if includes_str (part_mimetype file) ''quicktime'' then ''.mov''
                 else if includes_str (part_mimetype file) ''mp4'' then ''.mp4'' else ''.webm'')
      in show_nat date_now @ ext)"

definition fileSize_limit :: nat where
  "fileSize_limit = 100 * 1024 * 1024"

text \<open>
  \<open>upload.single('video')\<close> with the storage, filter and limit configured in the source,
  on a part already parsed (see \<open>upload_part\<close>). A request without a file part reaches
  the handler with \<open>req.file\<close> undefined. A part that the filter refuses, or that is
  longer than the limit, never reaches the handler: multer passes the error on and leaves
  no file behind. An accepted part is written to \<open>uploads/\<close> followed by the file name
  and described by \<open>req.file\<close>.
\<close>

definition multer_single ::
  "nat \<Rightarrow> upload_part option \<Rightarrow> (string \<rightharpoonup> 8 word list) \<Rightarrow>
     js_error + (file_info option \<times> (string \<rightharpoonup> 8 word list))" where
  "multer_single date_now part dsk =
     (case part of
        None \<Rightarrow> Inr (None, dsk)
      | Some file \<Rightarrow>
          (case fileFilter file of
             Inl err \<Rightarrow> Inl err
           | Inr _ \<Rightarrow>
               if fileSize_limit < length (part_content file)
               then Inl (Error ''File too large'' ''MulterError: File too large'')
               else let p = ''uploads/'' @ filename date_now file in
                 Inr (Some \<lparr>originalname = part_originalname file,
                            mimetype = part_mimetype file,
                            size_f = length (part_content file),
                            path = p\<rparr>,
                      dsk(p \<mapsto> part_content file))))"

section \<open>Base64\<close>

text \<open>
  \<open>Buffer.toString('base64')\<close> is the standard encoding with padding: three bytes become
  four characters of the alphabet, a last group of one or two bytes is padded with
  \<open>=\<close>. The decoder is the inverse reading of the same table.
\<close>

definition b64_alphabet :: string where
  "b64_alphabet = ''ABCDEFGHIJKLMNOPQRSTUVWXYZabcdefghijklmnopqrstuvwxyz0123456789+/''"

definition b64_char :: "nat \<Rightarrow> char" where
  "b64_char i = b64_alphabet ! i"

definition b64_value :: "char \<Rightarrow> nat option" where
  "b64_value c = index_of c b64_alphabet"

fun base64_encode :: "8 word list \<Rightarrow> string" where
  "base64_encode [] = []"
| "base64_encode [a] =
     (let n = unat a * 65536
      in [b64_char (n div 262144), b64_char (n div 4096 mod 64), CHR ''='', CHR ''=''])"
| "base64_encode [a, b] =
     (let n = unat a * 65536 + unat b * 256
      in [b64_char (n div 262144), b64_char (n div 4096 mod 64),
          b64_char (n div 64 mod 64), CHR ''=''])"
| "base64_encode (a # b # c # rest) =
     (let n = unat a * 65536 + unat b * 256 + unat c
      in [b64_char (n div 262144), b64_char (n div 4096 mod 64),
          b64_char (n div 64 mod 64), b64_char (n mod 64)] @ base64_encode rest)"

fun base64_decode :: "string \<Rightarrow> 8 word list option" where
  "base64_decode [] = Some []"
| "base64_decode (c1 # c2 # c3 # c4 # rest) =
     (case (b64_value c1, b64_value c2) of
        (Some v1, Some v2) \<Rightarrow>
          if c3 = CHR ''='' \<and> c4 = CHR ''='' \<and> rest = []
          then Some [of_nat ((v1 * 64 + v2) div 16)]
          else (case b64_value c3 of
                  None \<Rightarrow> None
                | Some v3 \<Rightarrow>
                    if c4 = CHR ''='' \<and> rest = []
                    then (let n = (v1 * 64 + v2) * 64 + v3
                          in Some [of_nat (n div 1024), of_nat (n div 4 mod 256)])
                    else (case b64_value c4 of
                            None \<Rightarrow> None
                          | Some v4 \<Rightarrow>
                              (case base64_decode rest of
                                 None \<Rightarrow> None
                               | Some bs \<Rightarrow>
                                   (let n = ((v1 * 64 + v2) * 64 + v3) * 64 + v4
                                    in Some (of_nat (n div 65536) # of_nat (n div 256 mod 256) #
                                             of_nat (n mod 256) # bs)))))
      | _ \<Rightarrow> None)"
| "base64_decode _ = None"

section \<open>Documents, collaborators and the state of a run\<close>

text \<open>
  A document of the \<open>recordings\<close> collection. \<open>oid\<close> is the \<open>_id\<close> the store assigns;
  \<open>duration\<close> is a number or \<open>null\<close>.
\<close>

record recording_metadata =
  originalName :: string
  mimeType :: string
  size_m :: nat
  duration :: "real option"

record recording =
  oid :: string
  transcript :: string
  thumbnail :: string
  timestamp :: nat
  metadata :: recording_metadata

text \<open>
  What the collaborators answer during one request.
  \<^item> \<open>ffmpeg_screenshots\<close>: the screenshot job emits \<open>error\<close>, or it emits \<open>end\<close>;
    at \<open>end\<close> it has written a frame or, for a clip that has no frame at the requested
    time, nothing.
  \<^item> \<open>ffmpeg_save\<close>: the audio job emits \<open>error\<close>, or \<open>end\<close> with the file written.
  \<^item> \<open>transcriptions_create\<close>: the transcription call rejects or resolves with the text.
  \<^item> \<open>ffprobe\<close>: the two arguments \<open>(err, metadata)\<close> that \<open>ffprobe\<close> passes to its
    callback: an error or none, and \<open>metadata.format.duration\<close> when \<open>metadata\<close> is
    passed. fluent-ffmpeg passes no metadata together with an error.
  \<^item> \<open>insertOne\<close>: the insert rejects or resolves with the id the store assigns.
  \<^item> \<open>new_Date\<close>: the clock; \<open>unlink\<close>: the outcome of \<open>fs.unlink\<close> per path.
\<close>

record env =
  ffmpeg_screenshots :: "js_error + 8 word list option"
  ffmpeg_save :: "js_error + 8 word list"
  transcriptions_create :: "js_error + string"
  ffprobe :: "js_error option \<times> real option"
  insertOne :: "js_error + string"
  new_Date :: nat
  unlink :: "string \<Rightarrow> js_error option"

text \<open>
  The stage an error comes from. The source has one \<open>catch\<close> for all of them; the tag
  records which awaited call rejected.
\<close>

datatype err_kind =
  DerivationError | TranscriptionError | ReadError | ProbeError | PersistenceError

datatype thrown = Thrown (kind: err_kind) (cause: js_error)

datatype stage =
  Thumbnail | Audio | Transcription | ReadThumbnail | Probe | Persistence | Cleanup

text \<open>
  An entry of the trace: the collaborator that is called, with the tracked paths and the
  disk at the moment of the call.
\<close>

datatype event =
  Event (ev_stage: stage) (ev_files: "string list") (ev_disk: "string \<rightharpoonup> 8 word list")

text \<open>
  The state a request works on: the handler's local array \<open>files\<close>, the disk, the
  collection, and the trace of calls made so far.
\<close>

record ctx =
  files :: "string list"
  disk :: "string \<rightharpoonup> 8 word list"
  db :: "recording list"
  trace :: "event list"

text \<open>
  How a step of the handler ends: with a value; with an error thrown inside \<open>try\<close>, which
  \<open>catch\<close> receives; or with an exception thrown in a callback outside the handler, which
  nothing catches, so that the process exits.
\<close>

datatype 'a completion = Resolved 'a | Rejected thrown | Crashed js_error

type_synonym 'a prog = "ctx \<Rightarrow> 'a completion \<times> ctx"

text \<open>
  Sequencing inside \<open>try\<close>: a rejected \<open>await\<close> skips the rest of the block, and so
  does the end of the process.
\<close>

definition seq :: "'a prog \<Rightarrow> ('a \<Rightarrow> 'b prog) \<Rightarrow> 'b prog" where
  "seq m k c =
     (case m c of
        (Resolved x, c') \<Rightarrow> k x c'
      | (Rejected err, c') \<Rightarrow> (Rejected err, c')
      | (Crashed err, c') \<Rightarrow> (Crashed err, c'))"

definition done_with :: "'a \<Rightarrow> 'a prog" where
  "done_with x c = (Resolved x, c)"

definition calls :: "stage \<Rightarrow> ctx \<Rightarrow> ctx" where
  "calls st c = c\<lparr>trace := trace c @ [Event st (files c) (disk c)]\<rparr>"

text \<open>\<open>files.push(p)\<close>\<close>

definition files_push :: "string \<Rightarrow> unit prog" where
  "files_push p c = (Resolved (), c\<lparr>files := files c @ [p]\<rparr>)"

section \<open>The stages\<close>

text \<open>The disk after a job that wrote \<open>bytes\<close> to \<open>p\<close>, or wrote nothing.\<close>

definition job_output ::
  "(string \<rightharpoonup> 8 word list) \<Rightarrow> string \<Rightarrow> 8 word list option \<Rightarrow> (string \<rightharpoonup> 8 word list)" where
  "job_output dsk p written = (case written of None \<Rightarrow> dsk | Some bytes \<Rightarrow> dsk(p \<mapsto> bytes))"

text \<open>
  \<open>createThumbnail\<close> and \<open>convertToAudio\<close> resolve with the output path on \<open>end\<close> and
  reject on \<open>error\<close>. \<open>createThumbnail\<close> resolves on \<open>end\<close> whether or not a frame was
  written. The screenshot is written to \<open>dirname(inputPath)/basename(outputPath)\<close>, which
  is \<open>outputPath\<close>. What a job that emits \<open>error\<close> leaves behind is not part of the model.
\<close>

definition createThumbnail :: "env \<Rightarrow> string \<Rightarrow> string prog" where
  "createThumbnail e inputPath c =
     (let outputPath = replace_ext inputPath ''-thumb.jpg''; c' = calls Thumbnail c in
      case ffmpeg_screenshots e of
        Inl err \<Rightarrow> (Rejected (Thrown DerivationError err), c')
      | Inr written \<Rightarrow>
          (Resolved outputPath, c'\<lparr>disk := job_output (disk c') outputPath written\<rparr>))"

definition convertToAudio :: "env \<Rightarrow> string \<Rightarrow> string prog" where
  "convertToAudio e inputPath c =
     (let outputPath = replace_ext inputPath ''.mp3''; c' = calls Audio c in
      case ffmpeg_save e of
        Inl err \<Rightarrow> (Rejected (Thrown DerivationError err), c')
      | Inr mp3 \<Rightarrow> (Resolved outputPath, c'\<lparr>disk := (disk c')(outputPath \<mapsto> mp3)\<rparr>))"

text \<open>\<open>openai.audio.transcriptions.create(...)\<close>; the result is \<open>transcription.text\<close>.\<close>

definition transcribe :: "env \<Rightarrow> string \<Rightarrow> string prog" where
  "transcribe e audioPath c =
     (let c' = calls Transcription c in
      case transcriptions_create e of
        Inl err \<Rightarrow> (Rejected (Thrown TranscriptionError err), c')
      | Inr text \<Rightarrow> (Resolved text, c'))"

definition enoent_message :: "string \<Rightarrow> string" where
  "enoent_message p = ''ENOENT: no such file or directory, open '' @ [CHR 0x27] @ p @ [CHR 0x27]"

text \<open>\<open>fs.readFileSync(p)\<close> throws when there is no such file.\<close>

definition readFileSync :: "string \<Rightarrow> (8 word list) prog" where
  "readFileSync p c =
     (let c' = calls ReadThumbnail c in
      case disk c' p of
        None \<Rightarrow>
          (Rejected (Thrown ReadError (Error (enoent_message p) (''Error: '' @ enoent_message p))),
           c')
      | Some bytes \<Rightarrow> (Resolved bytes, c'))"

text \<open>
  \<open>getVideoDuration\<close>. The callback given to \<open>ffprobe\<close> is
  \<^verbatim>\<open>(err, metadata) => { if (err) reject(err); resolve(metadata.format.duration); }\<close>
  with no \<open>return\<close> after \<open>reject\<close>. It runs in a callback of \<open>ffprobe\<close>, outside the
  handler's \<open>try\<close>.
  \<^item> When \<open>metadata\<close> is not passed, reading \<open>metadata.format\<close> throws a \<open>TypeError\<close>
    in that callback, whether or not the promise was rejected just before. Nothing
    catches it: the process exits, and the handler never resumes.
  \<^item> When \<open>metadata\<close> is passed together with an error, the promise is rejected and the
    \<open>resolve\<close> that follows has no effect: the rejection is thrown at the \<open>await\<close>.
  \<^item> When \<open>metadata\<close> is passed without an error, the promise resolves with the duration.
\<close>

definition undefined_format_error :: js_error where
  "undefined_format_error =
     Error (''Cannot read properties of undefined (reading '' @ [CHR 0x27] @ ''format'' @
              [CHR 0x27] @ '')'')
           (''TypeError: Cannot read properties of undefined (reading '' @ [CHR 0x27] @
              ''format'' @ [CHR 0x27] @ '')'')"

definition getVideoDuration :: "env \<Rightarrow> string \<Rightarrow> real prog" where
  "getVideoDuration e filepath c =
     (let c' = calls Probe c in
      case snd (ffprobe e) of
        None \<Rightarrow> (Crashed undefined_format_error, c')
      | Some seconds \<Rightarrow>
          (case fst (ffprobe e) of
             Some err \<Rightarrow> (Rejected (Thrown ProbeError err), c')
           | None \<Rightarrow> (Resolved seconds, c')))"

text \<open>\<open>db.collection('recordings').insertOne(doc)\<close>; the result is \<open>result.insertedId\<close>.\<close>

definition insert_recording :: "env \<Rightarrow> recording \<Rightarrow> string prog" where
  "insert_recording e doc c =
     (let c' = calls Persistence c in
      case insertOne e of
        Inl err \<Rightarrow> (Rejected (Thrown PersistenceError err), c')
      | Inr insertedId \<Rightarrow>
          (Resolved insertedId, c'\<lparr>db := db c' @ [doc\<lparr>oid := insertedId\<rparr>]\<rparr>))"

text \<open>
  \<open>cleanupFiles\<close>: every path that exists is handed to \<open>fs.unlink\<close>; an error of
  \<open>unlink\<close> is logged and the file stays.
\<close>

fun cleanupFiles ::
  "(string \<Rightarrow> js_error option) \<Rightarrow> string list \<Rightarrow> (string \<rightharpoonup> 8 word list) \<Rightarrow>
     (string \<rightharpoonup> 8 word list)" where
  "cleanupFiles ul [] dsk = dsk"
| "cleanupFiles ul (file # rest) dsk =
     cleanupFiles ul rest
       (if dsk file \<noteq> None
        then (case ul file of None \<Rightarrow> dsk(file := None) | Some err \<Rightarrow> dsk)
        else dsk)"

definition cleanup :: "env \<Rightarrow> ctx \<Rightarrow> ctx" where
  "cleanup e c = (let c' = calls Cleanup c in c'\<lparr>disk := cleanupFiles (unlink e) (files c') (disk c')\<rparr>)"

section \<open>The upload endpoint\<close>

datatype body =
  UploadOk (transcription: string) (recordingId: string)
| Failure (error: string) (details: "string option")
| Recordings "recording list"
| DeleteOk

record response =
  status :: nat
  json :: body

text \<open>
  The body of \<open>try\<close> after the check of \<open>req.file\<close>. The arguments of \<open>insertOne\<close> are
  evaluated before the call, the probe last among them.
\<close>

definition upload_try :: "env \<Rightarrow> file_info \<Rightarrow> (string \<times> string) prog" where
  "upload_try e file =
     seq (files_push (path file)) (\<lambda>_.
     seq (createThumbnail e (path file)) (\<lambda>thumbnailPath.
     seq (files_push thumbnailPath) (\<lambda>_.
     seq (convertToAudio e (path file)) (\<lambda>audioPath.
     seq (files_push audioPath) (\<lambda>_.
     seq (transcribe e audioPath) (\<lambda>text.
     seq (readFileSync thumbnailPath) (\<lambda>thumbnailBuffer.
     seq (getVideoDuration e (path file)) (\<lambda>seconds.
     seq (insert_recording e
            \<lparr>oid = [], transcript = text, thumbnail = base64_encode thumbnailBuffer,
             timestamp = new_Date e,
             metadata = \<lparr>originalName = originalname file, mimeType = mimetype file,
                         size_m = size_f file, duration = Some seconds\<rparr>\<rparr>) (\<lambda>insertedId.
     (\<lambda>c. done_with (text, insertedId) (cleanup e c)))))))))))"

text \<open>
  The handler. A request without a file is answered at once. Otherwise the answer is
  the success, or the failure that \<open>catch\<close> sends after draining the tracked files.
  When the process exits during the run there is no answer and \<open>catch\<close> does not run.
\<close>

definition upload_handler :: "env \<Rightarrow> file_info option \<Rightarrow> ctx \<Rightarrow> response option \<times> ctx" where
  "upload_handler e req_file c0 =
     (let c = c0\<lparr>files := []\<rparr> in
      case req_file of
        None \<Rightarrow> (Some \<lparr>status = 400, json = Failure ''No video file provided'' None\<rparr>, c)
      | Some file \<Rightarrow>
          (case upload_try e file c of
             (Resolved (text, insertedId), c') \<Rightarrow>
               (Some \<lparr>status = 200, json = UploadOk text insertedId\<rparr>, c')
           | (Rejected err, c') \<Rightarrow>
               (Some \<lparr>status = 500,
                      json = Failure ''Upload failed'' (Some (message (cause err)))\<rparr>,
                cleanup e c')
           | (Crashed err, c') \<Rightarrow> (None, c')))"

text \<open>The error that ended the run inside \<open>try\<close>, if any: what \<open>catch\<close> receives.\<close>

definition caught :: "env \<Rightarrow> file_info \<Rightarrow> ctx \<Rightarrow> thrown option" where
  "caught e file c0 =
     (case upload_try e file (c0\<lparr>files := []\<rparr>) of
        (Rejected err, _) \<Rightarrow> Some err
      | (Resolved _, _) \<Rightarrow> None
      | (Crashed _, _) \<Rightarrow> None)"

text \<open>The exception that ended the process during the run, if any.\<close>

definition uncaught :: "env \<Rightarrow> file_info \<Rightarrow> ctx \<Rightarrow> js_error option" where
  "uncaught e file c0 =
     (case upload_try e file (c0\<lparr>files := []\<rparr>) of
        (Crashed err, _) \<Rightarrow> Some err
      | (Resolved _, _) \<Rightarrow> None
      | (Rejected _, _) \<Rightarrow> None)"

text \<open>The error handling middleware, which answers for errors passed on by multer.\<close>

definition error_middleware :: "js_error \<Rightarrow> response" where
  "error_middleware err =
     \<lparr>status = 500, json = Failure ''Something broke!'' (Some (message err))\<rparr>"

text \<open>\<open>POST /api/upload\<close>: multer, then the handler.\<close>

definition post_upload ::
  "env \<Rightarrow> nat \<Rightarrow> upload_part option \<Rightarrow> ctx \<Rightarrow> response option \<times> ctx" where
  "post_upload e date_now part c0 =
     (case multer_single date_now part (disk c0) of
        Inl err \<Rightarrow> (Some (error_middleware err), c0)
      | Inr (req_file, dsk) \<Rightarrow> upload_handler e req_file (c0\<lparr>disk := dsk\<rparr>))"

section \<open>Listing and deleting\<close>

text \<open>
  \<open>find({}).sort({timestamp: -1}).toArray()\<close>: newest first. The store chooses the
  order of documents with equal timestamps; the model fixes one.
\<close>

definition list_recordings :: "recording list \<Rightarrow> recording list" where
  "list_recordings docs = rev (sort_key timestamp docs)"

definition get_recordings :: "js_error option \<Rightarrow> recording list \<Rightarrow> response" where
  "get_recordings find_error docs =
     (case find_error of
        None \<Rightarrow> \<lparr>status = 200, json = Recordings (list_recordings docs)\<rparr>
      | Some err \<Rightarrow> \<lparr>status = 500, json = Failure ''Failed to fetch recordings'' None\<rparr>)"

text \<open>\<open>deleteOne({_id: x})\<close> removes the first document with that id and reports the count.\<close>

fun deleteOne :: "string \<Rightarrow> recording list \<Rightarrow> nat \<times> recording list" where
  "deleteOne x [] = (0, [])"
| "deleteOne x (d # ds) =
     (if oid d = x then (1, ds) else (case deleteOne x ds of (n, ds') \<Rightarrow> (n, d # ds')))"

text \<open>
  \<open>DELETE /api/recordings/:id\<close>. The id is built by \<open>new MongoClient.ObjectId(req.params.id)\<close>
  inside \<open>try\<close>; \<open>new_ObjectId\<close> is the outcome of that expression (an id, or the error
  it throws), which the driver decides. \<open>deleteOne_error\<close> is a failure of the store.
\<close>

definition delete_recording ::
  "(string \<Rightarrow> js_error + string) \<Rightarrow> js_error option \<Rightarrow> string \<Rightarrow> recording list \<Rightarrow>
     response \<times> recording list" where
  "delete_recording new_ObjectId deleteOne_error id_param docs =
     (case new_ObjectId id_param of
        Inl err \<Rightarrow> (\<lparr>status = 500, json = Failure ''Failed to delete recording'' None\<rparr>, docs)
      | Inr x \<Rightarrow>
          (case deleteOne_error of
             Some err \<Rightarrow> (\<lparr>status = 500, json = Failure ''Failed to delete recording'' None\<rparr>, docs)
           | None \<Rightarrow>
               (case deleteOne x docs of
                  (deletedCount, docs') \<Rightarrow>
                    if deletedCount = 0
                    then (\<lparr>status = 404, json = Failure ''Recording not found'' None\<rparr>, docs')
                    else (\<lparr>status = 200, json = DeleteOk\<rparr>, docs'))))"

section \<open>Reference notions used to state the properties\<close>

text \<open>
  "The name ends in \<open>ext\<close>, compared without regard to case": the last characters of
  the name, as many as \<open>ext\<close> has, equal \<open>ext\<close> after canonicalisation. This is
  the wording of the property, not the regular expression of the source.
\<close>

definition ends_in_ci :: "string \<Rightarrow> string \<Rightarrow> bool" where
  "ends_in_ci s ext =
     (length ext \<le> length s \<and>
      map canonicalize (drop (length s - length ext) s) = map canonicalize ext)"

definition has_video_extension :: "string \<Rightarrow> bool" where
  "has_video_extension name =
     (ends_in_ci name ''.mp4'' \<or> ends_in_ci name ''.webm'' \<or> ends_in_ci name ''.mov'')"

text \<open>The stages called during a run, in order.\<close>

definition stages :: "ctx \<Rightarrow> stage list" where
  "stages c = map ev_stage (trace c)"

section \<open>Sample inputs\<close>

text \<open>
  A request as multer hands it to the handler, a disk that holds the uploaded file, and
  collaborators that all succeed. The samples instantiate the theorems below.
\<close>

definition sample_file :: file_info where
  "sample_file = \<lparr>originalname = ''clip.webm'', mimetype = ''video/webm'', size_f = 3,
                   path = ''uploads/1.webm''\<rparr>"

definition sample_ctx :: ctx where
  "sample_ctx = \<lparr>files = [], disk = [''uploads/1.webm'' \<mapsto> [1, 2, 3]], db = [], trace = []\<rparr>"

definition sample_env :: env where
  "sample_env = \<lparr>ffmpeg_screenshots = Inr (Some [255, 216, 255]),
                  ffmpeg_save = Inr [73, 68, 51],
                  transcriptions_create = Inr ''hello world'',
                  ffprobe = (None, Some 10),
                  insertOne = Inr ''R1'',
                  new_Date = 1000,
                  unlink = (\<lambda>p. None)\<rparr>"

definition empty_ctx :: ctx where
  "empty_ctx = \<lparr>files = [], disk = Map.empty, db = [], trace = []\<rparr>"

definition sample_recording :: recording where
  "sample_recording =
     \<lparr>oid = ''65f0c0ffee65f0c0ffee65f0'', transcript = ''hello world'', thumbnail = ''/9j/'',
      timestamp = 1000,
      metadata = \<lparr>originalName = ''clip.webm'', mimeType = ''video/webm'', size_m = 3,
                  duration = Some 10\<rparr>\<rparr>"

text \<open>
  A sample id constructor for the delete endpoint, as lenient as an \<open>ObjectId\<close>
  constructor can be on a string of this kind: it takes 24 hexadecimal digits and
  throws on anything else.
\<close>

definition is_hex_digit :: "char \<Rightarrow> bool" where
  "is_hex_digit c = (c \<in> set ''0123456789abcdefABCDEF'')"

definition strict_ObjectId :: "string \<Rightarrow> js_error + string" where
  "strict_ObjectId s =
     (if length s = 24 \<and> list_all is_hex_digit s then Inr s
      else Inl (Error ''input must be a 24 character hex string'' []))"


section \<open>The boundary filter\<close>

lemma canonicalize_dot: "(canonicalize c = CHR ''.'') = (c = CHR ''.'')"
  unfolding canonicalize_def
  by simp

lemma regex_search_iff:
  "(regex_search ci alts s \<noteq> None) =
     (\<exists>stem r. s = stem @ CHR ''.'' # r \<and> list_ex (lit_eq ci r) alts)"
proof (induction s)
  case Nil
  then show ?case by simp
next
  case (Cons c s)
  let ?P = "\<lambda>r. list_ex (lit_eq ci r) alts"
  have here_or_later: "(\<exists>stem r. c # s = stem @ CHR ''.'' # r \<and> ?P r) =
        (match_here ci alts (c # s) \<or> (\<exists>stem r. s = stem @ CHR ''.'' # r \<and> ?P r))"
    (is "?L = (?M \<or> ?R)")
  proof
    assume ?L
    then obtain stem r where eq: "c # s = stem @ CHR ''.'' # r" and P: "?P r" by blast
    show "?M \<or> ?R"
    proof (cases stem)
      case Nil
      with eq P show ?thesis by simp
    next
      case (Cons a stem')
      with eq have "s = stem' @ CHR ''.'' # r" by simp
      with P show ?thesis by blast
    qed
  next
    assume "?M \<or> ?R"
    then show ?L
    proof
      assume ?M
      then have "c # s = [] @ CHR ''.'' # s \<and> ?P s" by simp
      then show ?L by blast
    next
      assume ?R
      then obtain stem r where "s = stem @ CHR ''.'' # r" and P: "?P r" by blast
      then have "c # s = (c # stem) @ CHR ''.'' # r" by simp
      with P show ?L by blast
    qed
  qed
  have "(regex_search ci alts (c # s) \<noteq> None) =
        (match_here ci alts (c # s) \<or> regex_search ci alts s \<noteq> None)"
    by auto
  with Cons.IH here_or_later show ?case by simp
qed

lemma ends_in_ci_dot:
  "ends_in_ci s (CHR ''.'' # ext) =
     (\<exists>stem r. s = stem @ CHR ''.'' # r \<and> map canonicalize r = map canonicalize ext)"
  (is "?L = ?R")
proof
  assume L: ?L
  let ?n = "length s - length (CHR ''.'' # ext)"
  from L have m: "map canonicalize (drop ?n s) = map canonicalize (CHR ''.'' # ext)"
    by (simp add: ends_in_ci_def)
  from m obtain x r where d: "drop ?n s = x # r" and x: "canonicalize x = canonicalize CHR ''.''"
    and r: "map canonicalize r = map canonicalize ext"
    by (cases "drop ?n s") auto
  have cd: "canonicalize CHR ''.'' = CHR ''.''" by (simp add: canonicalize_def)
  from x have xdot: "x = CHR ''.''" by (simp only: cd canonicalize_dot)
  from d xdot have "s = take ?n s @ CHR ''.'' # r"
    by (metis append_take_drop_id)
  with r show ?R by blast
next
  assume ?R
  then obtain stem r where s: "s = stem @ CHR ''.'' # r"
    and r: "map canonicalize r = map canonicalize ext"
    by blast
  from r have "length r = length ext" by (metis length_map)
  with s r show ?L by (simp add: ends_in_ci_def)
qed

lemma match_video_ext_iff: "match_video_ext s = has_video_extension s"
  unfolding match_video_ext_def has_video_extension_def regex_search_iff ends_in_ci_dot
  by (simp add: lit_eq_def ex_disj_distrib conj_disj_distribL)

text \<open>
  C10. An upload whose declared media type is not in the list of valid types and does
  not begin with \<open>video/\<close> is accepted exactly when its original name ends in
  \<open>.mp4\<close>, \<open>.webm\<close> or \<open>.mov\<close>, compared without regard to case; the filter
  rejects exactly the uploads that fail both the media-type checks and the extension check.
\<close>

theorem C10_extension_fallback:
  "(part_mimetype file \<notin> set validTypes \<and> \<not> startsWith (part_mimetype file) ''video/''
      \<longrightarrow> (fileFilter file = Inr True) = has_video_extension (part_originalname file)) \<and>
   ((\<exists>err. fileFilter file = Inl err) =
      (part_mimetype file \<notin> set validTypes \<and> \<not> startsWith (part_mimetype file) ''video/'' \<and>
       \<not> has_video_extension (part_originalname file)))"
  by (simp add: fileFilter_def match_video_ext_iff)

theorem C10_extension_fallback_witness:
  "fileFilter \<lparr>part_originalname = ''Clip.MOV'', part_mimetype = ''text/plain'',
               part_content = []\<rparr> = Inr True \<and>
   (\<exists>err. fileFilter \<lparr>part_originalname = ''notes.txt'', part_mimetype = ''text/plain'',
                       part_content = []\<rparr> = Inl err)"
  using C10_extension_fallback
          [of "\<lparr>part_originalname = ''Clip.MOV'', part_mimetype = ''text/plain'',
                part_content = []\<rparr>"]
        C10_extension_fallback
          [of "\<lparr>part_originalname = ''notes.txt'', part_mimetype = ''text/plain'',
                part_content = []\<rparr>"]
  by (simp add: validTypes_def startsWith_def has_video_extension_def ends_in_ci_def
        canonicalize_def)


section \<open>Symbolic execution of the upload handler\<close>

declare cleanupFiles.simps [simp del]

lemma calls_simps [simp]:
  "files (calls st c) = files c"
  "disk (calls st c) = disk c"
  "db (calls st c) = db c"
  "trace (calls st c) = trace c @ [Event st (files c) (disk c)]"
  by (simp_all add: calls_def)

lemma cleanup_simps [simp]:
  "files (cleanup e c) = files c"
  "db (cleanup e c) = db c"
  "trace (cleanup e c) = trace c @ [Event Cleanup (files c) (disk c)]"
  "disk (cleanup e c) = cleanupFiles (unlink e) (files c) (disk c)"
  by (simp_all add: cleanup_def Let_def)

lemma job_output_simps [simp]:
  "job_output dsk p None = dsk"
  "job_output dsk p (Some bytes) = dsk(p \<mapsto> bytes)"
  by (simp_all add: job_output_def)

lemma job_output_apply:
  "job_output dsk p written q = (if q = p \<and> written \<noteq> None then written else dsk q)"
  by (cases written) simp_all

lemmas run_defs = upload_handler_def caught_def uncaught_def upload_try_def seq_def done_with_def
  files_push_def createThumbnail_def convertToAudio_def transcribe_def readFileSync_def
  getVideoDuration_def insert_recording_def Let_def

text \<open>What \<open>cleanupFiles\<close> leaves of the disk, path by path.\<close>

lemma cleanupFiles_apply:
  "cleanupFiles ul fs dsk p = (if p \<in> set fs \<and> ul p = None then None else dsk p)"
proof (induction fs arbitrary: dsk)
  case Nil
  show ?case by (simp add: cleanupFiles.simps)
next
  case (Cons x rest)
  show ?case
    by (cases "ul x") (auto simp: cleanupFiles.simps Cons.IH)
qed

text \<open>
  The eight ways a request with a file can go, by the answers of the collaborators and
  by what \<open>readFileSync\<close> finds at the thumbnail path.
\<close>

lemma upload_cases
  [case_names thumb_fail audio_fail transcribe_fail read_fail probe_crash probe_reject
     insert_fail success]:
  fixes e :: env and f :: file_info and c0 :: ctx
  obtains
    err where "ffmpeg_screenshots e = Inl err"
  | written err where "ffmpeg_screenshots e = Inr written" "ffmpeg_save e = Inl err"
  | written mp3 err where "ffmpeg_screenshots e = Inr written" "ffmpeg_save e = Inr mp3"
      "transcriptions_create e = Inl err"
  | written mp3 tx where "ffmpeg_screenshots e = Inr written" "ffmpeg_save e = Inr mp3"
      "transcriptions_create e = Inr tx"
      "((job_output (disk c0) (replace_ext (path f) ''-thumb.jpg'') written)
          (replace_ext (path f) ''.mp3'' \<mapsto> mp3)) (replace_ext (path f) ''-thumb.jpg'') = None"
  | written mp3 tx B perr where "ffmpeg_screenshots e = Inr written" "ffmpeg_save e = Inr mp3"
      "transcriptions_create e = Inr tx"
      "((job_output (disk c0) (replace_ext (path f) ''-thumb.jpg'') written)
          (replace_ext (path f) ''.mp3'' \<mapsto> mp3)) (replace_ext (path f) ''-thumb.jpg'') = Some B"
      "ffprobe e = (perr, None)"
  | written mp3 tx B err seconds where "ffmpeg_screenshots e = Inr written"
      "ffmpeg_save e = Inr mp3" "transcriptions_create e = Inr tx"
      "((job_output (disk c0) (replace_ext (path f) ''-thumb.jpg'') written)
          (replace_ext (path f) ''.mp3'' \<mapsto> mp3)) (replace_ext (path f) ''-thumb.jpg'') = Some B"
      "ffprobe e = (Some err, Some seconds)"
  | written mp3 tx B seconds err where "ffmpeg_screenshots e = Inr written"
      "ffmpeg_save e = Inr mp3" "transcriptions_create e = Inr tx"
      "((job_output (disk c0) (replace_ext (path f) ''-thumb.jpg'') written)
          (replace_ext (path f) ''.mp3'' \<mapsto> mp3)) (replace_ext (path f) ''-thumb.jpg'') = Some B"
      "ffprobe e = (None, Some seconds)" "insertOne e = Inl err"
  | written mp3 tx B seconds i where "ffmpeg_screenshots e = Inr written"
      "ffmpeg_save e = Inr mp3" "transcriptions_create e = Inr tx"
      "((job_output (disk c0) (replace_ext (path f) ''-thumb.jpg'') written)
          (replace_ext (path f) ''.mp3'' \<mapsto> mp3)) (replace_ext (path f) ''-thumb.jpg'') = Some B"
      "ffprobe e = (None, Some seconds)" "insertOne e = Inr i"
proof (cases "ffmpeg_screenshots e")
  case Inl
  then show ?thesis using that(1) by blast
next
  case thumb: (Inr written)
  show ?thesis
  proof (cases "ffmpeg_save e")
    case Inl
    with thumb show ?thesis using that(2) by blast
  next
    case audio: (Inr mp3)
    show ?thesis
    proof (cases "transcriptions_create e")
      case Inl
      with thumb audio show ?thesis using that(3) by blast
    next
      case transcribed: (Inr tx)
      let ?found = "((job_output (disk c0) (replace_ext (path f) ''-thumb.jpg'') written)
         (replace_ext (path f) ''.mp3'' \<mapsto> mp3)) (replace_ext (path f) ''-thumb.jpg'')"
      show ?thesis
      proof (cases ?found)
        case None
        with thumb audio transcribed show ?thesis using that(4) by blast
      next
        case found: (Some B)
        obtain perr meta where probe: "ffprobe e = (perr, meta)" by (cases "ffprobe e")
        show ?thesis
        proof (cases meta)
          case None
          with thumb audio transcribed found probe show ?thesis using that(5) by blast
        next
          case meta: (Some seconds)
          show ?thesis
          proof (cases perr)
            case (Some err)
            with thumb audio transcribed found probe meta show ?thesis using that(6) by blast
          next
            case no_error: None
            show ?thesis
            proof (cases "insertOne e")
              case Inl
              with thumb audio transcribed found probe meta no_error show ?thesis
                using that(7) by blast
            next
              case Inr
              with thumb audio transcribed found probe meta no_error show ?thesis
                using that(8) by blast
            qed
          qed
        qed
      qed
    qed
  qed
qed

lemma path_thumb_fail:
  fixes e :: env and f :: file_info and c0 :: ctx
  assumes "ffmpeg_screenshots e = Inl err"
  defines "r \<equiv> upload_handler e (Some f) c0"
  shows "fst r = Some \<lparr>status = 500, json = Failure ''Upload failed'' (Some (message err))\<rparr>"
    and "caught e f c0 = Some (Thrown DerivationError err)"
    and "trace (snd r) = trace c0 @
          [Event Thumbnail [path f] (disk c0),
           Event Cleanup [path f] (disk c0)]"
    and "files (snd r) = [path f]"
    and "disk (snd r) = cleanupFiles (unlink e) [path f] (disk c0)"
    and "db (snd r) = db c0"
    and "uncaught e f c0 = None"
  unfolding r_def  using assms(1-1) by (simp_all add: run_defs del: fun_upd_apply)

lemma path_audio_fail:
  fixes e :: env and f :: file_info and c0 :: ctx
  assumes "ffmpeg_screenshots e = Inr written"
    and "ffmpeg_save e = Inl err"
  defines "tp \<equiv> replace_ext (path f) ''-thumb.jpg''"
  defines "d1 \<equiv> job_output (disk c0) (replace_ext (path f) ''-thumb.jpg'') written"
  defines "r \<equiv> upload_handler e (Some f) c0"
  shows "fst r = Some \<lparr>status = 500, json = Failure ''Upload failed'' (Some (message err))\<rparr>"
    and "caught e f c0 = Some (Thrown DerivationError err)"
    and "trace (snd r) = trace c0 @
          [Event Thumbnail [path f] (disk c0),
           Event Audio [path f, tp] d1,
           Event Cleanup [path f, tp] d1]"
    and "files (snd r) = [path f, tp]"
    and "disk (snd r) = cleanupFiles (unlink e) [path f, tp] d1"
    and "db (snd r) = db c0"
    and "uncaught e f c0 = None"
  unfolding r_def d1_def tp_def using assms(1-2) by (simp_all add: run_defs del: fun_upd_apply)

lemma path_transcribe_fail:
  fixes e :: env and f :: file_info and c0 :: ctx
  assumes "ffmpeg_screenshots e = Inr written"
    and "ffmpeg_save e = Inr mp3"
    and "transcriptions_create e = Inl err"
  defines "tp \<equiv> replace_ext (path f) ''-thumb.jpg''"
  defines "ap \<equiv> replace_ext (path f) ''.mp3''"
  defines "d1 \<equiv> job_output (disk c0) (replace_ext (path f) ''-thumb.jpg'') written"
  defines "d2 \<equiv> (job_output (disk c0) (replace_ext (path f) ''-thumb.jpg'') written)
                  (replace_ext (path f) ''.mp3'' \<mapsto> mp3)"
  defines "r \<equiv> upload_handler e (Some f) c0"
  shows "fst r = Some \<lparr>status = 500, json = Failure ''Upload failed'' (Some (message err))\<rparr>"
    and "caught e f c0 = Some (Thrown TranscriptionError err)"
    and "trace (snd r) = trace c0 @
          [Event Thumbnail [path f] (disk c0),
           Event Audio [path f, tp] d1,
           Event Transcription [path f, tp, ap] d2,
           Event Cleanup [path f, tp, ap] d2]"
    and "files (snd r) = [path f, tp, ap]"
    and "disk (snd r) = cleanupFiles (unlink e) [path f, tp, ap] d2"
    and "db (snd r) = db c0"
    and "uncaught e f c0 = None"
  unfolding r_def d1_def d2_def tp_def ap_def using assms(1-3) by (simp_all add: run_defs del: fun_upd_apply)

lemma path_read_fail:
  fixes e :: env and f :: file_info and c0 :: ctx
  assumes "ffmpeg_screenshots e = Inr written"
    and "ffmpeg_save e = Inr mp3"
    and "transcriptions_create e = Inr tx"
    and "((job_output (disk c0) (replace_ext (path f) ''-thumb.jpg'') written)
          (replace_ext (path f) ''.mp3'' \<mapsto> mp3)) (replace_ext (path f) ''-thumb.jpg'') = None"
  defines "tp \<equiv> replace_ext (path f) ''-thumb.jpg''"
  defines "ap \<equiv> replace_ext (path f) ''.mp3''"
  defines "d1 \<equiv> job_output (disk c0) (replace_ext (path f) ''-thumb.jpg'') written"
  defines "d2 \<equiv> (job_output (disk c0) (replace_ext (path f) ''-thumb.jpg'') written)
                  (replace_ext (path f) ''.mp3'' \<mapsto> mp3)"
  defines "r \<equiv> upload_handler e (Some f) c0"
  shows "fst r = Some \<lparr>status = 500,
                    json = Failure ''Upload failed'' (Some (enoent_message tp))\<rparr>"
    and "caught e f c0 = Some (Thrown ReadError (Error (enoent_message tp) (''Error: '' @ enoent_message tp)))"
    and "trace (snd r) = trace c0 @
          [Event Thumbnail [path f] (disk c0),
           Event Audio [path f, tp] d1,
           Event Transcription [path f, tp, ap] d2,
           Event ReadThumbnail [path f, tp, ap] d2,
           Event Cleanup [path f, tp, ap] d2]"
    and "files (snd r) = [path f, tp, ap]"
    and "disk (snd r) = cleanupFiles (unlink e) [path f, tp, ap] d2"
    and "db (snd r) = db c0"
    and "uncaught e f c0 = None"
  unfolding r_def d1_def d2_def tp_def ap_def using assms(1-4) by (simp_all add: run_defs del: fun_upd_apply)

lemma path_probe_crash:
  fixes e :: env and f :: file_info and c0 :: ctx
  assumes "ffmpeg_screenshots e = Inr written"
    and "ffmpeg_save e = Inr mp3"
    and "transcriptions_create e = Inr tx"
    and "((job_output (disk c0) (replace_ext (path f) ''-thumb.jpg'') written)
          (replace_ext (path f) ''.mp3'' \<mapsto> mp3)) (replace_ext (path f) ''-thumb.jpg'') = Some B"
    and "ffprobe e = (perr, None)"
  defines "tp \<equiv> replace_ext (path f) ''-thumb.jpg''"
  defines "ap \<equiv> replace_ext (path f) ''.mp3''"
  defines "d1 \<equiv> job_output (disk c0) (replace_ext (path f) ''-thumb.jpg'') written"
  defines "d2 \<equiv> (job_output (disk c0) (replace_ext (path f) ''-thumb.jpg'') written)
                  (replace_ext (path f) ''.mp3'' \<mapsto> mp3)"
  defines "r \<equiv> upload_handler e (Some f) c0"
  shows "fst r = None"
    and "caught e f c0 = None"
    and "trace (snd r) = trace c0 @
          [Event Thumbnail [path f] (disk c0),
           Event Audio [path f, tp] d1,
           Event Transcription [path f, tp, ap] d2,
           Event ReadThumbnail [path f, tp, ap] d2,
           Event Probe [path f, tp, ap] d2]"
    and "files (snd r) = [path f, tp, ap]"
    and "disk (snd r) = d2"
    and "db (snd r) = db c0"
    and "uncaught e f c0 = Some undefined_format_error"
  unfolding r_def d1_def d2_def tp_def ap_def using assms(1-5) by (simp_all add: run_defs del: fun_upd_apply)

lemma path_probe_reject:
  fixes e :: env and f :: file_info and c0 :: ctx
  assumes "ffmpeg_screenshots e = Inr written"
    and "ffmpeg_save e = Inr mp3"
    and "transcriptions_create e = Inr tx"
    and "((job_output (disk c0) (replace_ext (path f) ''-thumb.jpg'') written)
          (replace_ext (path f) ''.mp3'' \<mapsto> mp3)) (replace_ext (path f) ''-thumb.jpg'') = Some B"
    and "ffprobe e = (Some err, Some seconds)"
  defines "tp \<equiv> replace_ext (path f) ''-thumb.jpg''"
  defines "ap \<equiv> replace_ext (path f) ''.mp3''"
  defines "d1 \<equiv> job_output (disk c0) (replace_ext (path f) ''-thumb.jpg'') written"
  defines "d2 \<equiv> (job_output (disk c0) (replace_ext (path f) ''-thumb.jpg'') written)
                  (replace_ext (path f) ''.mp3'' \<mapsto> mp3)"
  defines "r \<equiv> upload_handler e (Some f) c0"
  shows "fst r = Some \<lparr>status = 500, json = Failure ''Upload failed'' (Some (message err))\<rparr>"
    and "caught e f c0 = Some (Thrown ProbeError err)"
    and "trace (snd r) = trace c0 @
          [Event Thumbnail [path f] (disk c0),
           Event Audio [path f, tp] d1,
           Event Transcription [path f, tp, ap] d2,
           Event ReadThumbnail [path f, tp, ap] d2,
           Event Probe [path f, tp, ap] d2,
           Event Cleanup [path f, tp, ap] d2]"
    and "files (snd r) = [path f, tp, ap]"
    and "disk (snd r) = cleanupFiles (unlink e) [path f, tp, ap] d2"
    and "db (snd r) = db c0"
    and "uncaught e f c0 = None"
  unfolding r_def d1_def d2_def tp_def ap_def using assms(1-5) by (simp_all add: run_defs del: fun_upd_apply)

lemma path_insert_fail:
  fixes e :: env and f :: file_info and c0 :: ctx
  assumes "ffmpeg_screenshots e = Inr written"
    and "ffmpeg_save e = Inr mp3"
    and "transcriptions_create e = Inr tx"
    and "((job_output (disk c0) (replace_ext (path f) ''-thumb.jpg'') written)
          (replace_ext (path f) ''.mp3'' \<mapsto> mp3)) (replace_ext (path f) ''-thumb.jpg'') = Some B"
    and "ffprobe e = (None, Some seconds)"
    and "insertOne e = Inl err"
  defines "tp \<equiv> replace_ext (path f) ''-thumb.jpg''"
  defines "ap \<equiv> replace_ext (path f) ''.mp3''"
  defines "d1 \<equiv> job_output (disk c0) (replace_ext (path f) ''-thumb.jpg'') written"
  defines "d2 \<equiv> (job_output (disk c0) (replace_ext (path f) ''-thumb.jpg'') written)
                  (replace_ext (path f) ''.mp3'' \<mapsto> mp3)"
  defines "r \<equiv> upload_handler e (Some f) c0"
  shows "fst r = Some \<lparr>status = 500, json = Failure ''Upload failed'' (Some (message err))\<rparr>"
    and "caught e f c0 = Some (Thrown PersistenceError err)"
    and "trace (snd r) = trace c0 @
          [Event Thumbnail [path f] (disk c0),
           Event Audio [path f, tp] d1,
           Event Transcription [path f, tp, ap] d2,
           Event ReadThumbnail [path f, tp, ap] d2,
           Event Probe [path f, tp, ap] d2,
           Event Persistence [path f, tp, ap] d2,
           Event Cleanup [path f, tp, ap] d2]"
    and "files (snd r) = [path f, tp, ap]"
    and "disk (snd r) = cleanupFiles (unlink e) [path f, tp, ap] d2"
    and "db (snd r) = db c0"
    and "uncaught e f c0 = None"
  unfolding r_def d1_def d2_def tp_def ap_def using assms(1-6) by (simp_all add: run_defs del: fun_upd_apply)

lemma path_success:
  fixes e :: env and f :: file_info and c0 :: ctx
  assumes "ffmpeg_screenshots e = Inr written"
    and "ffmpeg_save e = Inr mp3"
    and "transcriptions_create e = Inr tx"
    and "((job_output (disk c0) (replace_ext (path f) ''-thumb.jpg'') written)
          (replace_ext (path f) ''.mp3'' \<mapsto> mp3)) (replace_ext (path f) ''-thumb.jpg'') = Some B"
    and "ffprobe e = (None, Some seconds)"
    and "insertOne e = Inr i"
  defines "tp \<equiv> replace_ext (path f) ''-thumb.jpg''"
  defines "ap \<equiv> replace_ext (path f) ''.mp3''"
  defines "d1 \<equiv> job_output (disk c0) (replace_ext (path f) ''-thumb.jpg'') written"
  defines "d2 \<equiv> (job_output (disk c0) (replace_ext (path f) ''-thumb.jpg'') written)
                  (replace_ext (path f) ''.mp3'' \<mapsto> mp3)"
  defines "r \<equiv> upload_handler e (Some f) c0"
  shows "fst r = Some \<lparr>status = 200, json = UploadOk tx i\<rparr>"
    and "caught e f c0 = None"
    and "trace (snd r) = trace c0 @
          [Event Thumbnail [path f] (disk c0),
           Event Audio [path f, tp] d1,
           Event Transcription [path f, tp, ap] d2,
           Event ReadThumbnail [path f, tp, ap] d2,
           Event Probe [path f, tp, ap] d2,
           Event Persistence [path f, tp, ap] d2,
           Event Cleanup [path f, tp, ap] d2]"
    and "files (snd r) = [path f, tp, ap]"
    and "disk (snd r) = cleanupFiles (unlink e) [path f, tp, ap] d2"
    and "db (snd r) = db c0 @
          [\<lparr>oid = i, transcript = tx, thumbnail = base64_encode B,
            timestamp = new_Date e,
            metadata = \<lparr>originalName = originalname f, mimeType = mimetype f,
                        size_m = size_f f, duration = Some seconds\<rparr>\<rparr>]"
    and "uncaught e f c0 = None"
  unfolding r_def d1_def d2_def tp_def ap_def using assms(1-6) by (simp_all add: run_defs del: fun_upd_apply)

text \<open>The sample run: every collaborator succeeds.\<close>

lemma sample_paths:
  "replace_ext ''uploads/1.webm'' ''-thumb.jpg'' = ''uploads/1-thumb.jpg''"
  "replace_ext ''uploads/1.webm'' ''.mp3'' = ''uploads/1.mp3''"
  by (simp_all add: replace_ext_def lit_eq_def)

lemma sample_env_answers:
  "ffmpeg_screenshots sample_env = Inr (Some [255, 216, 255])"
  "ffmpeg_save sample_env = Inr [73, 68, 51]"
  "transcriptions_create sample_env = Inr ''hello world''"
  by (simp_all add: sample_env_def)

lemma sample_env_probe_insert:
  "ffprobe sample_env = (None, Some 10)"
  "insertOne sample_env = Inr ''R1''"
  by (simp_all add: sample_env_def)

text \<open>In the sample run \<open>readFileSync\<close> finds the frame that the screenshot job wrote.\<close>

lemma sample_read:
  "((job_output (disk sample_ctx) (replace_ext (path sample_file) ''-thumb.jpg'')
       (Some [255, 216, 255]))
      (replace_ext (path sample_file) ''.mp3'' \<mapsto> mp3))
     (replace_ext (path sample_file) ''-thumb.jpg'') = Some [255, 216, 255]"
  by (simp add: sample_file_def sample_paths)

lemmas sample_run =
  path_success[OF sample_env_answers sample_read sample_env_probe_insert]

section \<open>Base64 decoding inverts encoding\<close>

lemma index_of_nth: "distinct xs \<Longrightarrow> i < length xs \<Longrightarrow> index_of (xs ! i) xs = Some i"
proof (induction xs arbitrary: i)
  case Nil
  then show ?case by simp
next
  case (Cons x xs)
  show ?case
  proof (cases i)
    case 0
    then show ?thesis by simp
  next
    case (Suc j)
    with Cons.prems have "j < length xs" and "xs ! j \<noteq> x" and "distinct xs" by auto
    with Cons.IH[of j] Suc show ?thesis by simp
  qed
qed

lemma distinct_b64_alphabet: "distinct b64_alphabet"
  by (simp add: b64_alphabet_def)

lemma length_b64_alphabet: "length b64_alphabet = 64"
  by (simp add: b64_alphabet_def)

lemma b64_value_char: "i < 64 \<Longrightarrow> b64_value (b64_char i) = Some i"
  unfolding b64_value_def b64_char_def
  by (rule index_of_nth) (simp_all add: distinct_b64_alphabet length_b64_alphabet)

lemma b64_char_not_pad: "i < 64 \<Longrightarrow> b64_char i \<noteq> CHR ''=''"
proof -
  assume "i < 64"
  then have "b64_char i \<in> set b64_alphabet"
    unfolding b64_char_def by (simp add: length_b64_alphabet)
  moreover have "CHR ''='' \<notin> set b64_alphabet" by (simp add: b64_alphabet_def)
  ultimately show ?thesis by metis
qed

text \<open>Four sextets put together again give the 24 bits they were cut from.\<close>

lemma sextets3:
  fixes n :: nat
  shows "((n div 262144 * 64 + n div 4096 mod 64) * 64 + n div 64 mod 64) * 64 + n mod 64 = n"
proof -
  have a: "n div 64 div 64 = n div 4096" by (simp add: div_mult2_eq)
  have b: "n div 4096 div 64 = n div 262144" by (simp add: div_mult2_eq)
  have "n = n div 64 * 64 + n mod 64" by simp
  also have "n div 64 = n div 64 div 64 * 64 + n div 64 mod 64" by simp
  also have "n div 64 div 64 = n div 4096 div 64 * 64 + n div 4096 mod 64" unfolding a by simp
  finally show ?thesis unfolding b by simp
qed

lemma sextets2:
  fixes n :: nat
  shows "(n div 262144 * 64 + n div 4096 mod 64) * 64 + n div 64 mod 64 = n div 64"
proof -
  have a: "n div 64 div 64 = n div 4096" by (simp add: div_mult2_eq)
  have b: "n div 4096 div 64 = n div 262144" by (simp add: div_mult2_eq)
  have "n div 64 = n div 64 div 64 * 64 + n div 64 mod 64" by simp
  also have "n div 64 div 64 = n div 4096 div 64 * 64 + n div 4096 mod 64" unfolding a by simp
  finally show ?thesis unfolding b by simp
qed

lemma sextets1:
  fixes n :: nat
  shows "n div 262144 * 64 + n div 4096 mod 64 = n div 4096"
proof -
  have b: "n div 4096 div 64 = n div 262144" by (simp add: div_mult2_eq)
  have "n div 4096 = n div 4096 div 64 * 64 + n div 4096 mod 64" by simp
  then show ?thesis unfolding b by simp
qed

lemma first_sextet_bound:
  fixes a b c :: nat
  assumes "a < 256" "b < 256" "c < 256"
  shows "(a * 65536 + b * 256 + c) div 262144 < 64"
  using assms by simp

lemma bytes_of_group3:
  fixes a b c :: nat
  assumes "a < 256" "b < 256" "c < 256"
  shows "(a * 65536 + b * 256 + c) div 65536 = a"
    and "(a * 65536 + b * 256 + c) div 256 mod 256 = b"
    and "(a * 65536 + b * 256 + c) mod 256 = c"
proof -
  have e: "a * 65536 + b * 256 + c = (a * 256 + b) * 256 + c" by simp
  show "(a * 65536 + b * 256 + c) div 65536 = a" using assms by simp
  have m: "\<And>k r::nat. r < 256 \<Longrightarrow> (k * 256 + r) mod 256 = r" by simp
  have d: "\<And>k r::nat. r < 256 \<Longrightarrow> (k * 256 + r) div 256 = k" by simp
  show "(a * 65536 + b * 256 + c) div 256 mod 256 = b"
    unfolding e d[OF assms(3)] by (rule m[OF assms(2)])
  show "(a * 65536 + b * 256 + c) mod 256 = c"
    unfolding e by (rule m[OF assms(3)])
qed

lemma bytes_of_group2:
  fixes a b :: nat
  assumes "a < 256" "b < 256"
  shows "(a * 65536 + b * 256) div 64 div 1024 = a"
    and "(a * 65536 + b * 256) div 64 div 4 mod 256 = b"
  using assms by simp_all

lemma bytes_of_group1:
  fixes a :: nat
  shows "(a * 65536) div 4096 div 16 = a"
  by simp

lemma decode_pad2:
  assumes "s1 < 64" "s2 < 64"
  shows "base64_decode [b64_char s1, b64_char s2, CHR ''='', CHR ''='']
         = Some [of_nat ((s1 * 64 + s2) div 16)]"
  using assms by (simp add: b64_value_char)

lemma decode_pad1:
  assumes "s1 < 64" "s2 < 64" "s3 < 64"
  shows "base64_decode [b64_char s1, b64_char s2, b64_char s3, CHR ''='']
         = Some [of_nat (((s1 * 64 + s2) * 64 + s3) div 1024),
                 of_nat (((s1 * 64 + s2) * 64 + s3) div 4 mod 256)]"
  using assms by (simp add: b64_value_char b64_char_not_pad Let_def)

lemma decode_full:
  assumes "s1 < 64" "s2 < 64" "s3 < 64" "s4 < 64"
  shows "base64_decode (b64_char s1 # b64_char s2 # b64_char s3 # b64_char s4 # rest)
         = (case base64_decode rest of
              None \<Rightarrow> None
            | Some bs \<Rightarrow>
                Some (of_nat ((((s1 * 64 + s2) * 64 + s3) * 64 + s4) div 65536) #
                      of_nat ((((s1 * 64 + s2) * 64 + s3) * 64 + s4) div 256 mod 256) #
                      of_nat ((((s1 * 64 + s2) * 64 + s3) * 64 + s4) mod 256) # bs))"
  using assms by (simp add: b64_value_char b64_char_not_pad Let_def split: option.split)

lemma unat_byte: "unat (a :: 8 word) < 256"
proof -
  have "unat a < 2 ^ LENGTH(8)" by (rule unsigned_less)
  then show ?thesis by simp
qed

lemma base64_roundtrip: "base64_decode (base64_encode bytes) = Some bytes"
proof (induction bytes rule: base64_encode.induct)
  case 1
  show ?case by simp
next
  case (2 a)
  define n where "n = unat a * 65536"
  have s1: "n div 262144 < 64" using unat_byte[of a] by (simp add: n_def)
  have s2: "n div 4096 mod 64 < 64" by simp
  have "base64_decode (base64_encode [a])
        = base64_decode [b64_char (n div 262144), b64_char (n div 4096 mod 64), CHR ''='', CHR ''='']"
    by (simp add: n_def Let_def)
  also have "\<dots> = Some [of_nat ((n div 262144 * 64 + n div 4096 mod 64) div 16)]"
    by (rule decode_pad2[OF s1 s2])
  also have "(n div 262144 * 64 + n div 4096 mod 64) div 16 = unat a"
    unfolding sextets1 n_def by (rule bytes_of_group1)
  finally show ?case by simp
next
  case (3 a b)
  define n where "n = unat a * 65536 + unat b * 256"
  have s1: "n div 262144 < 64" using unat_byte[of a] unat_byte[of b] by (simp add: n_def)
  have s2: "n div 4096 mod 64 < 64" and s3: "n div 64 mod 64 < 64" by simp_all
  let ?k = "(n div 262144 * 64 + n div 4096 mod 64) * 64 + n div 64 mod 64"
  have "base64_decode (base64_encode [a, b])
        = base64_decode [b64_char (n div 262144), b64_char (n div 4096 mod 64),
                         b64_char (n div 64 mod 64), CHR ''='']"
    by (simp add: n_def Let_def)
  also have "\<dots> = Some [of_nat (?k div 1024), of_nat (?k div 4 mod 256)]"
    by (rule decode_pad1[OF s1 s2 s3])
  also have "?k div 1024 = unat a"
    unfolding sextets2 n_def by (rule bytes_of_group2(1)[OF unat_byte unat_byte])
  also have "?k div 4 mod 256 = unat b"
    unfolding sextets2 n_def by (rule bytes_of_group2(2)[OF unat_byte unat_byte])
  finally show ?case by simp
next
  case (4 a b c rest)
  define n where "n = unat a * 65536 + unat b * 256 + unat c"
  have s1: "n div 262144 < 64"
    unfolding n_def by (rule first_sextet_bound[OF unat_byte unat_byte unat_byte])
  have s2: "n div 4096 mod 64 < 64" and s3: "n div 64 mod 64 < 64" and s4: "n mod 64 < 64"
    by simp_all
  let ?m = "((n div 262144 * 64 + n div 4096 mod 64) * 64 + n div 64 mod 64) * 64 + n mod 64"
  have "base64_decode (base64_encode (a # b # c # rest))
        = base64_decode (b64_char (n div 262144) # b64_char (n div 4096 mod 64) #
                         b64_char (n div 64 mod 64) # b64_char (n mod 64) # base64_encode rest)"
    by (simp add: n_def Let_def)
  also have "\<dots> = Some (of_nat (?m div 65536) # of_nat (?m div 256 mod 256) #
                         of_nat (?m mod 256) # rest)"
    using "4.IH" by (simp only: decode_full[OF s1 s2 s3 s4] option.case)
  also have "?m div 65536 = unat a"
    unfolding sextets3 n_def by (rule bytes_of_group3(1)[OF unat_byte unat_byte unat_byte])
  also have "?m div 256 mod 256 = unat b"
    unfolding sextets3 n_def by (rule bytes_of_group3(2)[OF unat_byte unat_byte unat_byte])
  also have "?m mod 256 = unat c"
    unfolding sextets3 n_def by (rule bytes_of_group3(3)[OF unat_byte unat_byte unat_byte])
  finally show ?case by simp
qed

lemma set_list_recordings: "set (list_recordings docs) = set docs"
  by (simp add: list_recordings_def)



section \<open>Registration before the next step\<close>

text \<open>
  C2. In every run, at each call of a collaborator and at the drain, the uploaded file
  is in the tracked set, and so is every path whose content differs from the disk before
  the run. Once the thumbnail job has succeeded, every later call finds the thumbnail
  path tracked, and once the audio job has succeeded, every later call finds the audio
  path tracked: each artifact is registered before any later fallible step, and no
  artifact is on disk unregistered between its creation and the end of the run.
\<close>

theorem C2_registered_before_next_step:
  assumes "trace c0 = []"
  shows "\<forall>ev \<in> set (trace (snd (upload_handler e (Some f) c0))).
           path f \<in> set (ev_files ev) \<and>
           (\<forall>p. ev_disk ev p \<noteq> disk c0 p \<longrightarrow> p \<in> set (ev_files ev)) \<and>
           (ev_stage ev \<noteq> Thumbnail \<and> (\<exists>jpg. ffmpeg_screenshots e = Inr jpg) \<longrightarrow>
              replace_ext (path f) ''-thumb.jpg'' \<in> set (ev_files ev)) \<and>
           (ev_stage ev \<noteq> Thumbnail \<and> ev_stage ev \<noteq> Audio \<and>
            (\<exists>jpg. ffmpeg_screenshots e = Inr jpg) \<and> (\<exists>mp3. ffmpeg_save e = Inr mp3) \<longrightarrow>
              replace_ext (path f) ''.mp3'' \<in> set (ev_files ev))"
proof (cases rule: upload_cases[where e=e and f=f and ?c0.0=c0])
  case thumb_fail
  show ?thesis
    by (simp add: path_thumb_fail(3)[OF thumb_fail] assms job_output_apply thumb_fail)
next
  case audio_fail
  show ?thesis
    by (simp add: path_audio_fail(3)[OF audio_fail] assms job_output_apply audio_fail)
next
  case transcribe_fail
  show ?thesis
    by (simp add: path_transcribe_fail(3)[OF transcribe_fail] assms job_output_apply)
next
  case read_fail
  show ?thesis
    by (simp add: path_read_fail(3)[OF read_fail] assms job_output_apply)
next
  case probe_crash
  show ?thesis
    by (simp add: path_probe_crash(3)[OF probe_crash] assms job_output_apply)
next
  case probe_reject
  show ?thesis
    by (simp add: path_probe_reject(3)[OF probe_reject] assms job_output_apply)
next
  case insert_fail
  show ?thesis
    by (simp add: path_insert_fail(3)[OF insert_fail] assms job_output_apply)
next
  case success
  show ?thesis
    by (simp add: path_success(3)[OF success] assms job_output_apply)
qed

theorem C2_registered_before_next_step_witness:
  "trace sample_ctx = [] \<and>
   map ev_files (trace (snd (upload_handler sample_env (Some sample_file) sample_ctx))) =
     [[''uploads/1.webm''],
      [''uploads/1.webm'', ''uploads/1-thumb.jpg''],
      [''uploads/1.webm'', ''uploads/1-thumb.jpg'', ''uploads/1.mp3''],
      [''uploads/1.webm'', ''uploads/1-thumb.jpg'', ''uploads/1.mp3''],
      [''uploads/1.webm'', ''uploads/1-thumb.jpg'', ''uploads/1.mp3''],
      [''uploads/1.webm'', ''uploads/1-thumb.jpg'', ''uploads/1.mp3''],
      [''uploads/1.webm'', ''uploads/1-thumb.jpg'', ''uploads/1.mp3'']] \<and>
   ''uploads/1-thumb.jpg'' \<in>
     set (ev_files (last (trace (snd (upload_handler sample_env (Some sample_file) sample_ctx)))))"
proof -
  have fresh: "trace sample_ctx = []" by (simp add: sample_ctx_def)
  from C2_registered_before_next_step[OF fresh, of sample_env sample_file] fresh
  show ?thesis
    unfolding sample_run(3) by (simp add: sample_file_def sample_ctx_def sample_paths)
qed

section \<open>The drain\<close>

text \<open>
  C1 as stated fails where \<open>fs.unlink\<close> reports an error: the error is logged and the
  file stays. Here every collaborator succeeds, the drain runs, and the uploaded video
  is still on disk after the run, although it is registered.
\<close>

theorem C1_counterexample:
  "trace sample_ctx = [] \<and>
   ''uploads/1.webm'' \<in> set (files (snd (upload_handler
      (sample_env\<lparr>unlink := (\<lambda>p. Some (Error ''EPERM: operation not permitted, unlink'' []))\<rparr>)
      (Some sample_file) sample_ctx))) \<and>
   disk (snd (upload_handler
      (sample_env\<lparr>unlink := (\<lambda>p. Some (Error ''EPERM: operation not permitted, unlink'' []))\<rparr>)
      (Some sample_file) sample_ctx)) ''uploads/1.webm'' = Some [1, 2, 3]"
proof -
  let ?e = "sample_env\<lparr>unlink := (\<lambda>p. Some (Error ''EPERM: operation not permitted, unlink'' []))\<rparr>"
  have answers:
    "ffmpeg_screenshots ?e = Inr (Some [255, 216, 255])" "ffmpeg_save ?e = Inr [73, 68, 51]"
    "transcriptions_create ?e = Inr ''hello world''"
    and rest: "ffprobe ?e = (None, Some 10)" "insertOne ?e = Inr ''R1''"
    by (simp_all add: sample_env_def)
  note run = path_success[OF answers sample_read rest]
  show ?thesis
    unfolding run(4) run(5)
    by (simp add: cleanupFiles_apply sample_file_def sample_ctx_def sample_paths)
qed

text \<open>
  C1, amended. Take a run that received a file and in which the duration probe, if it is
  reached, hands metadata to its callback. The tracked paths are drained exactly once, as
  the last step, on the success path and on every failure path, and the drain is given
  all of them. Afterwards every tracked path whose \<open>unlink\<close> did not fail is gone from
  the disk; a path whose \<open>unlink\<close> failed stays (the error is only logged). The uploaded
  file is tracked, and the run leaves every untracked path as it was.
\<close>

theorem C1_drained_once_best_effort:
  assumes "trace c0 = []"
    and "Probe \<in> set (stages (snd (upload_handler e (Some f) c0))) \<longrightarrow> snd (ffprobe e) \<noteq> None"
  shows "fst (upload_handler e (Some f) c0) \<noteq> None \<and>
         count_list (stages (snd (upload_handler e (Some f) c0))) Cleanup = 1 \<and>
         ev_stage (last (trace (snd (upload_handler e (Some f) c0)))) = Cleanup \<and>
         ev_files (last (trace (snd (upload_handler e (Some f) c0)))) =
           files (snd (upload_handler e (Some f) c0)) \<and>
         path f \<in> set (files (snd (upload_handler e (Some f) c0))) \<and>
         (\<forall>p \<in> set (files (snd (upload_handler e (Some f) c0))).
            unlink e p = None \<longrightarrow> disk (snd (upload_handler e (Some f) c0)) p = None) \<and>
         (\<forall>p. p \<notin> set (files (snd (upload_handler e (Some f) c0))) \<longrightarrow>
            disk (snd (upload_handler e (Some f) c0)) p = disk c0 p)"
proof (cases rule: upload_cases[where e=e and f=f and ?c0.0=c0])
  case thumb_fail
  note run = path_thumb_fail[OF thumb_fail]
  show ?thesis
    unfolding stages_def run(1) run(3) run(4) run(5)
    by (simp add: assms(1) cleanupFiles_apply job_output_apply)
next
  case audio_fail
  note run = path_audio_fail[OF audio_fail]
  show ?thesis
    unfolding stages_def run(1) run(3) run(4) run(5)
    by (simp add: assms(1) cleanupFiles_apply job_output_apply)
next
  case transcribe_fail
  note run = path_transcribe_fail[OF transcribe_fail]
  show ?thesis
    unfolding stages_def run(1) run(3) run(4) run(5)
    by (simp add: assms(1) cleanupFiles_apply job_output_apply)
next
  case read_fail
  note run = path_read_fail[OF read_fail]
  show ?thesis
    unfolding stages_def run(1) run(3) run(4) run(5)
    by (simp add: assms(1) cleanupFiles_apply job_output_apply)
next
  case probe_crash
  note run = path_probe_crash[OF probe_crash]
  have "Probe \<in> set (stages (snd (upload_handler e (Some f) c0)))"
    unfolding stages_def run(3) by simp
  with assms(2) probe_crash(5) show ?thesis by simp
next
  case probe_reject
  note run = path_probe_reject[OF probe_reject]
  show ?thesis
    unfolding stages_def run(1) run(3) run(4) run(5)
    by (simp add: assms(1) cleanupFiles_apply job_output_apply)
next
  case insert_fail
  note run = path_insert_fail[OF insert_fail]
  show ?thesis
    unfolding stages_def run(1) run(3) run(4) run(5)
    by (simp add: assms(1) cleanupFiles_apply job_output_apply)
next
  case success
  note run = path_success[OF success]
  show ?thesis
    unfolding stages_def run(1) run(3) run(4) run(5)
    by (simp add: assms(1) cleanupFiles_apply job_output_apply)
qed

theorem C1_drained_once_best_effort_witness:
  "trace sample_ctx = [] \<and>
   snd (ffprobe sample_env) = Some 10 \<and>
   stages (snd (upload_handler sample_env (Some sample_file) sample_ctx)) =
     [Thumbnail, Audio, Transcription, ReadThumbnail, Probe, Persistence, Cleanup] \<and>
   unlink sample_env ''uploads/1.webm'' = None \<and>
   disk (snd (upload_handler sample_env (Some sample_file) sample_ctx)) ''uploads/1.webm'' = None \<and>
   disk (snd (upload_handler sample_env (Some sample_file) sample_ctx)) ''uploads/1-thumb.jpg'' = None \<and>
   disk (snd (upload_handler sample_env (Some sample_file) sample_ctx)) ''uploads/1.mp3'' = None"
proof -
  have fresh: "trace sample_ctx = []" by (simp add: sample_ctx_def)
  have ok: "unlink sample_env p = None" for p by (simp add: sample_env_def)
  have meta: "snd (ffprobe sample_env) = Some 10" by (simp add: sample_env_def)
  then have probe: "Probe \<in> set (stages (snd (upload_handler sample_env (Some sample_file) sample_ctx)))
      \<longrightarrow> snd (ffprobe sample_env) \<noteq> None"
    by simp
  have tracked: "files (snd (upload_handler sample_env (Some sample_file) sample_ctx)) =
      [''uploads/1.webm'', ''uploads/1-thumb.jpg'', ''uploads/1.mp3'']"
    unfolding sample_run(4) by (simp add: sample_file_def sample_paths)
  have order: "stages (snd (upload_handler sample_env (Some sample_file) sample_ctx)) =
      [Thumbnail, Audio, Transcription, ReadThumbnail, Probe, Persistence, Cleanup]"
    unfolding stages_def sample_run(3) by (simp add: fresh)
  from C1_drained_once_best_effort[OF fresh probe]
  have "\<forall>p \<in> set (files (snd (upload_handler sample_env (Some sample_file) sample_ctx))).
          unlink sample_env p = None \<longrightarrow>
          disk (snd (upload_handler sample_env (Some sample_file) sample_ctx)) p = None"
    by blast
  with tracked ok fresh order meta show ?thesis by simp
qed

section \<open>Failures of the stages\<close>

text \<open>
  C3 at a failing probe. When thumbnail, audio and transcription succeed, the frame is
  read, and \<open>ffprobe\<close> calls back with an error and no metadata, the callback of
  \<open>getVideoDuration\<close> rejects and then throws while reading \<open>metadata.format\<close>. The
  process exits: no answer is sent, neither success nor failure; \<open>catch\<close> receives
  nothing and the drain does not run, so the uploaded file, the thumbnail and the audio
  file stay on disk; \<open>insertOne\<close> is never called and no Recording is stored.
\<close>

theorem C3_probe_failure_ends_process:
  assumes "trace c0 = []"
    and "ffmpeg_screenshots e = Inr (Some jpg)" and "ffmpeg_save e = Inr mp3"
    and "transcriptions_create e = Inr tx" and "ffprobe e = (Some err, None)"
  shows "fst (upload_handler e (Some f) c0) = None \<and>
         caught e f c0 = None \<and>
         uncaught e f c0 = Some undefined_format_error \<and>
         stages (snd (upload_handler e (Some f) c0)) =
           [Thumbnail, Audio, Transcription, ReadThumbnail, Probe] \<and>
         files (snd (upload_handler e (Some f) c0)) =
           [path f, replace_ext (path f) ''-thumb.jpg'', replace_ext (path f) ''.mp3''] \<and>
         disk (snd (upload_handler e (Some f) c0)) =
           (disk c0)(replace_ext (path f) ''-thumb.jpg'' \<mapsto> jpg,
                     replace_ext (path f) ''.mp3'' \<mapsto> mp3) \<and>
         db (snd (upload_handler e (Some f) c0)) = db c0"
proof -
  let ?tp = "replace_ext (path f) ''-thumb.jpg''"
  let ?ap = "replace_ext (path f) ''.mp3''"
  have found: "((job_output (disk c0) ?tp (Some jpg))(?ap \<mapsto> mp3)) ?tp =
      Some (if ?tp = ?ap then mp3 else jpg)"
    by simp
  note run = path_probe_crash[OF assms(2-4) found assms(5)]
  show ?thesis
    unfolding stages_def run(1) run(2) run(3) run(4) run(5) run(6) run(7)
    by (simp add: assms(1))
qed

theorem C3_probe_failure_ends_process_witness:
  "trace sample_ctx = [] \<and>
   ffprobe (sample_env\<lparr>ffprobe := (Some (Error ''ffprobe exited with code 1'' []), None)\<rparr>) =
     (Some (Error ''ffprobe exited with code 1'' []), None) \<and>
   fst (upload_handler
      (sample_env\<lparr>ffprobe := (Some (Error ''ffprobe exited with code 1'' []), None)\<rparr>)
      (Some sample_file) sample_ctx) = None \<and>
   db (snd (upload_handler
      (sample_env\<lparr>ffprobe := (Some (Error ''ffprobe exited with code 1'' []), None)\<rparr>)
      (Some sample_file) sample_ctx)) = [] \<and>
   map (disk (snd (upload_handler
      (sample_env\<lparr>ffprobe := (Some (Error ''ffprobe exited with code 1'' []), None)\<rparr>)
      (Some sample_file) sample_ctx)))
     [''uploads/1.webm'', ''uploads/1-thumb.jpg'', ''uploads/1.mp3''] =
     [Some [1, 2, 3], Some [255, 216, 255], Some [73, 68, 51]]"
proof -
  let ?e = "sample_env\<lparr>ffprobe := (Some (Error ''ffprobe exited with code 1'' []), None)\<rparr>"
  have fresh: "trace sample_ctx = []" by (simp add: sample_ctx_def)
  have answers:
    "ffmpeg_screenshots ?e = Inr (Some [255, 216, 255])" "ffmpeg_save ?e = Inr [73, 68, 51]"
    "transcriptions_create ?e = Inr ''hello world''"
    "ffprobe ?e = (Some (Error ''ffprobe exited with code 1'' []), None)"
    by (simp_all add: sample_env_def)
  from C3_probe_failure_ends_process[OF fresh answers, of sample_file] fresh answers(4)
  show ?thesis by (simp add: sample_ctx_def sample_file_def sample_paths)
qed

text \<open>
  Had \<open>ffprobe\<close> passed metadata along with its error, the rejection would reach
  \<open>catch\<close>: the run would still fail, before \<open>insertOne\<close>.
\<close>

lemma probe_error_with_metadata_is_caught:
  assumes "trace c0 = []"
    and "ffmpeg_screenshots e = Inr (Some jpg)" and "ffmpeg_save e = Inr mp3"
    and "transcriptions_create e = Inr tx" and "ffprobe e = (Some err, Some seconds)"
  shows "fst (upload_handler e (Some f) c0) =
           Some \<lparr>status = 500, json = Failure ''Upload failed'' (Some (message err))\<rparr> \<and>
         caught e f c0 = Some (Thrown ProbeError err) \<and>
         Persistence \<notin> set (stages (snd (upload_handler e (Some f) c0))) \<and>
         db (snd (upload_handler e (Some f) c0)) = db c0"
proof -
  let ?tp = "replace_ext (path f) ''-thumb.jpg''"
  let ?ap = "replace_ext (path f) ''.mp3''"
  have found: "((job_output (disk c0) ?tp (Some jpg))(?ap \<mapsto> mp3)) ?tp =
      Some (if ?tp = ?ap then mp3 else jpg)"
    by simp
  note run = path_probe_reject[OF assms(2-4) found assms(5)]
  show ?thesis
    unfolding stages_def run(1) run(2) run(3) run(6) by (simp add: assms(1))
qed

text \<open>
  C4. When the transcription call fails, the run ends with that error, tagged
  \<open>TranscriptionError\<close>; \<open>insertOne\<close> is never called, the collection is as it was, and
  so is what the listing returns: no transcript, whole or partial, becomes visible.
\<close>

theorem C4_transcription_failure:
  assumes "trace c0 = []"
    and "ffmpeg_screenshots e = Inr jpg" and "ffmpeg_save e = Inr mp3"
    and "transcriptions_create e = Inl err"
  shows "caught e f c0 = Some (Thrown TranscriptionError err) \<and>
         fst (upload_handler e (Some f) c0) =
           Some \<lparr>status = 500, json = Failure ''Upload failed'' (Some (message err))\<rparr> \<and>
         Transcription \<in> set (stages (snd (upload_handler e (Some f) c0))) \<and>
         Persistence \<notin> set (stages (snd (upload_handler e (Some f) c0))) \<and>
         db (snd (upload_handler e (Some f) c0)) = db c0 \<and>
         get_recordings None (db (snd (upload_handler e (Some f) c0))) =
           get_recordings None (db c0)"
proof -
  note run = path_transcribe_fail[OF assms(2-4)]
  show ?thesis
    unfolding stages_def run(1) run(2) run(3) run(6) by (simp add: assms(1))
qed

theorem C4_transcription_failure_witness:
  "trace sample_ctx = [] \<and>
   transcriptions_create (sample_env\<lparr>transcriptions_create := Inl (Error ''429 quota exceeded'' [])\<rparr>)
     = Inl (Error ''429 quota exceeded'' []) \<and>
   caught (sample_env\<lparr>transcriptions_create := Inl (Error ''429 quota exceeded'' [])\<rparr>)
     sample_file sample_ctx = Some (Thrown TranscriptionError (Error ''429 quota exceeded'' [])) \<and>
   get_recordings None
     (db (snd (upload_handler
        (sample_env\<lparr>transcriptions_create := Inl (Error ''429 quota exceeded'' [])\<rparr>)
        (Some sample_file) sample_ctx))) = \<lparr>status = 200, json = Recordings []\<rparr>"
proof -
  let ?e = "sample_env\<lparr>transcriptions_create := Inl (Error ''429 quota exceeded'' [])\<rparr>"
  have fresh: "trace sample_ctx = []" by (simp add: sample_ctx_def)
  have answers:
    "ffmpeg_screenshots ?e = Inr (Some [255, 216, 255])" "ffmpeg_save ?e = Inr [73, 68, 51]"
    "transcriptions_create ?e = Inl (Error ''429 quota exceeded'' [])"
    by (simp_all add: sample_env_def)
  from C4_transcription_failure[OF fresh answers, of sample_file] fresh answers(3)
  show ?thesis by (simp add: sample_ctx_def get_recordings_def list_recordings_def)
qed

text \<open>
  C5 as stated fails in its last part where \<open>fs.unlink\<close> reports an error: the thumbnail
  derived before the audio conversion failed is registered and handed to the drain, and
  is still on disk afterwards.
\<close>

theorem C5_counterexample:
  "ffmpeg_save (sample_env\<lparr>ffmpeg_save := Inl (Error ''ffmpeg exited with code 1'' []),
       unlink := (\<lambda>p. Some (Error ''EBUSY: resource busy or locked, unlink'' []))\<rparr>)
     = Inl (Error ''ffmpeg exited with code 1'' []) \<and>
   ''uploads/1-thumb.jpg'' \<in> set (files (snd (upload_handler
      (sample_env\<lparr>ffmpeg_save := Inl (Error ''ffmpeg exited with code 1'' []),
         unlink := (\<lambda>p. Some (Error ''EBUSY: resource busy or locked, unlink'' []))\<rparr>)
      (Some sample_file) sample_ctx))) \<and>
   disk (snd (upload_handler
      (sample_env\<lparr>ffmpeg_save := Inl (Error ''ffmpeg exited with code 1'' []),
         unlink := (\<lambda>p. Some (Error ''EBUSY: resource busy or locked, unlink'' []))\<rparr>)
      (Some sample_file) sample_ctx)) ''uploads/1-thumb.jpg'' = Some [255, 216, 255]"
proof -
  let ?e = "sample_env\<lparr>ffmpeg_save := Inl (Error ''ffmpeg exited with code 1'' []),
       unlink := (\<lambda>p. Some (Error ''EBUSY: resource busy or locked, unlink'' []))\<rparr>"
  have answers:
    "ffmpeg_screenshots ?e = Inr (Some [255, 216, 255])"
    "ffmpeg_save ?e = Inl (Error ''ffmpeg exited with code 1'' [])"
    by (simp_all add: sample_env_def)
  note run = path_audio_fail[OF answers]
  show ?thesis
    unfolding run(4) run(5)
    by (simp add: answers cleanupFiles_apply sample_file_def sample_ctx_def sample_paths)
qed

text \<open>
  C5, amended. When thumbnail derivation or audio derivation fails, the run ends with
  that error, tagged \<open>DerivationError\<close>; neither the transcription nor \<open>insertOne\<close> is
  called and no Recording is created. A thumbnail derived before the failure is in the
  tracked set that the drain is given, and it is gone from the disk afterwards unless its
  \<open>unlink\<close> failed.
\<close>

theorem C5_derivation_failure:
  assumes "trace c0 = []"
    and "ffmpeg_screenshots e = Inl err \<or>
         (\<exists>jpg. ffmpeg_screenshots e = Inr jpg) \<and> ffmpeg_save e = Inl err"
  shows "caught e f c0 = Some (Thrown DerivationError err) \<and>
         fst (upload_handler e (Some f) c0) =
           Some \<lparr>status = 500, json = Failure ''Upload failed'' (Some (message err))\<rparr> \<and>
         Transcription \<notin> set (stages (snd (upload_handler e (Some f) c0))) \<and>
         Persistence \<notin> set (stages (snd (upload_handler e (Some f) c0))) \<and>
         db (snd (upload_handler e (Some f) c0)) = db c0 \<and>
         (\<forall>jpg. ffmpeg_screenshots e = Inr jpg \<longrightarrow>
            replace_ext (path f) ''-thumb.jpg''
              \<in> set (ev_files (last (trace (snd (upload_handler e (Some f) c0))))) \<and>
            (unlink e (replace_ext (path f) ''-thumb.jpg'') = None \<longrightarrow>
               disk (snd (upload_handler e (Some f) c0)) (replace_ext (path f) ''-thumb.jpg'')
                 = None))"
  using assms(2)
proof
  assume thumb: "ffmpeg_screenshots e = Inl err"
  note run = path_thumb_fail[OF thumb]
  show ?thesis
    unfolding stages_def run(1) run(2) run(3) run(5) run(6) by (simp add: assms(1) thumb)
next
  assume "(\<exists>jpg. ffmpeg_screenshots e = Inr jpg) \<and> ffmpeg_save e = Inl err"
  then obtain jpg where thumb: "ffmpeg_screenshots e = Inr jpg"
    and audio: "ffmpeg_save e = Inl err" by blast
  note run = path_audio_fail[OF thumb audio]
  show ?thesis
    unfolding stages_def run(1) run(2) run(3) run(5) run(6)
    by (simp add: assms(1) cleanupFiles_apply)
qed

theorem C5_derivation_failure_witness:
  "trace sample_ctx = [] \<and>
   ffmpeg_screenshots (sample_env\<lparr>ffmpeg_save := Inl (Error ''ffmpeg exited with code 1'' [])\<rparr>)
     = Inr (Some [255, 216, 255]) \<and>
   ffmpeg_save (sample_env\<lparr>ffmpeg_save := Inl (Error ''ffmpeg exited with code 1'' [])\<rparr>)
     = Inl (Error ''ffmpeg exited with code 1'' []) \<and>
   caught (sample_env\<lparr>ffmpeg_save := Inl (Error ''ffmpeg exited with code 1'' [])\<rparr>)
     sample_file sample_ctx
     = Some (Thrown DerivationError (Error ''ffmpeg exited with code 1'' [])) \<and>
   disk (snd (upload_handler
      (sample_env\<lparr>ffmpeg_save := Inl (Error ''ffmpeg exited with code 1'' [])\<rparr>)
      (Some sample_file) sample_ctx)) ''uploads/1-thumb.jpg'' = None"
proof -
  let ?e = "sample_env\<lparr>ffmpeg_save := Inl (Error ''ffmpeg exited with code 1'' [])\<rparr>"
  have fresh: "trace sample_ctx = []" by (simp add: sample_ctx_def)
  have thumb: "ffmpeg_screenshots ?e = Inr (Some [255, 216, 255])"
    and audio: "ffmpeg_save ?e = Inl (Error ''ffmpeg exited with code 1'' [])"
    and ok: "unlink ?e ''uploads/1-thumb.jpg'' = None"
    by (simp_all add: sample_env_def)
  have fails: "ffmpeg_screenshots ?e = Inl (Error ''ffmpeg exited with code 1'' []) \<or>
      (\<exists>jpg. ffmpeg_screenshots ?e = Inr jpg) \<and>
      ffmpeg_save ?e = Inl (Error ''ffmpeg exited with code 1'' [])"
    using thumb audio by simp
  from C5_derivation_failure[OF fresh fails, of sample_file] fresh thumb audio ok
  show ?thesis by (simp add: sample_file_def sample_paths)
qed

section \<open>What a failure answers\<close>

text \<open>
  C8 as stated fails: the answer carries \<open>error.message\<close> as \<open>details\<close>, whatever the
  message says. Here the thumbnail job fails with a message that names the uploaded file,
  as ffmpeg's messages do, and the path reaches the caller.
\<close>

theorem C8_counterexample:
  "fst (upload_handler
      (sample_env\<lparr>ffmpeg_screenshots := Inl (Error
         ''ffmpeg exited with code 1: uploads/1.webm: Invalid data found when processing input''
         ''Error: ffmpeg exited with code 1 at ChildProcess (/srv/app/node_modules/fluent-ffmpeg/lib/processor.js:182:22)'')\<rparr>)
      (Some sample_file) sample_ctx) =
     Some \<lparr>status = 500,
           json = Failure ''Upload failed''
             (Some ''ffmpeg exited with code 1: uploads/1.webm: Invalid data found when processing input'')\<rparr> \<and>
   includes_str
     ''ffmpeg exited with code 1: uploads/1.webm: Invalid data found when processing input''
     (path sample_file)"
proof -
  let ?err = "Error
         ''ffmpeg exited with code 1: uploads/1.webm: Invalid data found when processing input''
         ''Error: ffmpeg exited with code 1 at ChildProcess (/srv/app/node_modules/fluent-ffmpeg/lib/processor.js:182:22)''"
  have answer: "ffmpeg_screenshots (sample_env\<lparr>ffmpeg_screenshots := Inl ?err\<rparr>) = Inl ?err"
    by simp
  note run = path_thumb_fail[OF answer]
  show ?thesis
    unfolding run(1) by (simp add: sample_file_def startsWith_def)
qed

text \<open>
  C8, amended. Every run of the handler that is answered with a failure is answered with
  status 500, the fixed kind \<open>Upload failed\<close> and, as details, the message of the error
  that \<open>catch\<close> received, word for word: the error of the collaborator that failed, or
  the error of \<open>readFileSync\<close> when there is no thumbnail file, whose message names the
  thumbnail path. The stack of the error is not part of the answer. An error of the type
  filter is answered by the error middleware with the fixed kind \<open>Something broke!\<close> and
  the filter's message, which quotes the declared media type, as details.
\<close>

theorem C8_failure_answer:
  "(\<forall>resp. fst (upload_handler e (Some f) c0) = Some resp \<and> status resp \<noteq> 200 \<longrightarrow>
      (\<exists>err. caught e f c0 = Some err \<and>
         resp = \<lparr>status = 500, json = Failure ''Upload failed'' (Some (message (cause err)))\<rparr> \<and>
         (ffmpeg_screenshots e = Inl (cause err) \<or> ffmpeg_save e = Inl (cause err) \<or>
          transcriptions_create e = Inl (cause err) \<or> fst (ffprobe e) = Some (cause err) \<or>
          insertOne e = Inl (cause err) \<or>
          cause err = Error (enoent_message (replace_ext (path f) ''-thumb.jpg''))
                        (''Error: '' @ enoent_message (replace_ext (path f) ''-thumb.jpg''))))) \<and>
   (\<forall>file err. fileFilter file = Inl err \<longrightarrow>
      error_middleware err =
        \<lparr>status = 500,
         json = Failure ''Something broke!''
                  (Some (''Invalid file type: '' @ part_mimetype file @
                         ''. Only video files are allowed''))\<rparr>)"
proof
  show "\<forall>resp. fst (upload_handler e (Some f) c0) = Some resp \<and> status resp \<noteq> 200 \<longrightarrow>
      (\<exists>err. caught e f c0 = Some err \<and>
         resp = \<lparr>status = 500, json = Failure ''Upload failed'' (Some (message (cause err)))\<rparr> \<and>
         (ffmpeg_screenshots e = Inl (cause err) \<or> ffmpeg_save e = Inl (cause err) \<or>
          transcriptions_create e = Inl (cause err) \<or> fst (ffprobe e) = Some (cause err) \<or>
          insertOne e = Inl (cause err) \<or>
          cause err = Error (enoent_message (replace_ext (path f) ''-thumb.jpg''))
                        (''Error: '' @ enoent_message (replace_ext (path f) ''-thumb.jpg''))))"
  proof (cases rule: upload_cases[where e=e and f=f and ?c0.0=c0])
    case thumb_fail
    note run = path_thumb_fail[OF thumb_fail]
    show ?thesis unfolding run(1) run(2) by (auto simp: thumb_fail)
  next
    case audio_fail
    note run = path_audio_fail[OF audio_fail]
    show ?thesis unfolding run(1) run(2) by (auto simp: audio_fail)
  next
    case transcribe_fail
    note run = path_transcribe_fail[OF transcribe_fail]
    show ?thesis unfolding run(1) run(2) by (auto simp: transcribe_fail)
  next
    case read_fail
    note run = path_read_fail[OF read_fail]
    show ?thesis unfolding run(1) run(2) by auto
  next
    case probe_crash
    note run = path_probe_crash[OF probe_crash]
    show ?thesis unfolding run(1) by simp
  next
    case probe_reject
    note run = path_probe_reject[OF probe_reject]
    show ?thesis unfolding run(1) run(2) by (auto simp: probe_reject)
  next
    case insert_fail
    note run = path_insert_fail[OF insert_fail]
    show ?thesis unfolding run(1) run(2) by (auto simp: insert_fail)
  next
    case success
    note run = path_success[OF success]
    show ?thesis unfolding run(1) by simp
  qed
next
  show "\<forall>file err. fileFilter file = Inl err \<longrightarrow>
      error_middleware err =
        \<lparr>status = 500,
         json = Failure ''Something broke!''
                  (Some (''Invalid file type: '' @ part_mimetype file @
                         ''. Only video files are allowed''))\<rparr>"
    by (auto simp: fileFilter_def error_middleware_def invalid_type_message_def
          split: if_splits)
qed

theorem C8_failure_answer_witness:
  "fst (upload_handler
      (sample_env\<lparr>insertOne := Inl (Error ''connect ECONNREFUSED 10.0.0.5:27017'' [])\<rparr>)
      (Some sample_file) sample_ctx) =
     Some \<lparr>status = 500,
           json = Failure ''Upload failed'' (Some ''connect ECONNREFUSED 10.0.0.5:27017'')\<rparr> \<and>
   fst (upload_handler (sample_env\<lparr>ffmpeg_screenshots := Inr None\<rparr>)
      (Some sample_file) sample_ctx) =
     Some \<lparr>status = 500,
           json = Failure ''Upload failed''
             (Some (''ENOENT: no such file or directory, open '' @ [CHR 0x27] @
                    ''uploads/1-thumb.jpg'' @ [CHR 0x27]))\<rparr> \<and>
   error_middleware
     (Error ''Invalid file type: text/plain. Only video files are allowed''
            ''Error: Invalid file type: text/plain. Only video files are allowed'') =
     \<lparr>status = 500,
      json = Failure ''Something broke!''
               (Some ''Invalid file type: text/plain. Only video files are allowed'')\<rparr>"
proof -
  let ?e = "sample_env\<lparr>insertOne := Inl (Error ''connect ECONNREFUSED 10.0.0.5:27017'' [])\<rparr>"
  let ?n = "sample_env\<lparr>ffmpeg_screenshots := Inr None\<rparr>"
  let ?part = "\<lparr>part_originalname = ''notes.txt'', part_mimetype = ''text/plain'',
              part_content = [104, 105]\<rparr>"
  have answers:
    "ffmpeg_screenshots ?e = Inr (Some [255, 216, 255])" "ffmpeg_save ?e = Inr [73, 68, 51]"
    "transcriptions_create ?e = Inr ''hello world''"
    and rest: "ffprobe ?e = (None, Some 10)"
      "insertOne ?e = Inl (Error ''connect ECONNREFUSED 10.0.0.5:27017'' [])"
    by (simp_all add: sample_env_def)
  note run = path_insert_fail[OF answers sample_read rest]
  have stored: "fst (upload_handler ?e (Some sample_file) sample_ctx) =
      Some \<lparr>status = 500,
            json = Failure ''Upload failed'' (Some ''connect ECONNREFUSED 10.0.0.5:27017'')\<rparr>"
    unfolding run(1) by simp
  have no_frame:
    "ffmpeg_screenshots ?n = Inr None" "ffmpeg_save ?n = Inr [73, 68, 51]"
    "transcriptions_create ?n = Inr ''hello world''"
    "((job_output (disk sample_ctx) (replace_ext (path sample_file) ''-thumb.jpg'') None)
        (replace_ext (path sample_file) ''.mp3'' \<mapsto> [73, 68, 51]))
       (replace_ext (path sample_file) ''-thumb.jpg'') = None"
    by (simp_all add: sample_env_def sample_file_def sample_ctx_def sample_paths)
  note missing = path_read_fail[OF no_frame]
  have absent: "fst (upload_handler ?n (Some sample_file) sample_ctx) =
      Some \<lparr>status = 500,
            json = Failure ''Upload failed''
              (Some (enoent_message (replace_ext (path sample_file) ''-thumb.jpg'')))\<rparr>"
    by (rule missing(1))
  have refused: "fileFilter ?part =
      Inl (Error ''Invalid file type: text/plain. Only video files are allowed''
                 ''Error: Invalid file type: text/plain. Only video files are allowed'')"
    by (simp add: fileFilter_def validTypes_def startsWith_def
          match_video_ext_def lit_eq_def canonicalize_def invalid_type_message_def)
  from C8_failure_answer[of ?e sample_file sample_ctx] refused
  have "error_middleware
     (Error ''Invalid file type: text/plain. Only video files are allowed''
            ''Error: Invalid file type: text/plain. Only video files are allowed'') =
     \<lparr>status = 500,
      json = Failure ''Something broke!''
               (Some (''Invalid file type: '' @ part_mimetype ?part @
                      ''. Only video files are allowed''))\<rparr>"
    by blast
  with stored absent show ?thesis
    by (simp add: enoent_message_def sample_file_def sample_paths)
qed

section \<open>The stored thumbnail\<close>

text \<open>
  C9. After a successful upload the collection holds one more document, the listing
  returns it, and its \<open>thumbnail\<close> field is the base64 text of the bytes \<open>B\<close> that
  \<open>readFileSync\<close> found at the thumbnail path; decoding the field gives \<open>B\<close> back.
\<close>

theorem C9_thumbnail_roundtrip:
  assumes "trace c0 = []"
    and "map_option status (fst (upload_handler e (Some f) c0)) = Some 200"
  shows "\<exists>r B tx.
           db (snd (upload_handler e (Some f) c0)) = db c0 @ [r] \<and>
           fst (upload_handler e (Some f) c0) =
             Some \<lparr>status = 200, json = UploadOk tx (oid r)\<rparr> \<and>
           get_recordings None (db (snd (upload_handler e (Some f) c0))) =
             \<lparr>status = 200,
              json = Recordings (list_recordings (db (snd (upload_handler e (Some f) c0))))\<rparr> \<and>
           r \<in> set (list_recordings (db (snd (upload_handler e (Some f) c0)))) \<and>
           (\<exists>ev \<in> set (trace (snd (upload_handler e (Some f) c0))).
              ev_stage ev = ReadThumbnail \<and>
              ev_disk ev (replace_ext (path f) ''-thumb.jpg'') = Some B) \<and>
           thumbnail r = base64_encode B \<and>
           base64_decode (thumbnail r) = Some B"
proof (cases rule: upload_cases[where e=e and f=f and ?c0.0=c0])
  case thumb_fail
  from assms(2) show ?thesis by (simp add: path_thumb_fail(1)[OF thumb_fail])
next
  case audio_fail
  from assms(2) show ?thesis by (simp add: path_audio_fail(1)[OF audio_fail])
next
  case transcribe_fail
  from assms(2) show ?thesis by (simp add: path_transcribe_fail(1)[OF transcribe_fail])
next
  case read_fail
  from assms(2) show ?thesis by (simp add: path_read_fail(1)[OF read_fail])
next
  case probe_crash
  from assms(2) show ?thesis by (simp add: path_probe_crash(1)[OF probe_crash])
next
  case probe_reject
  from assms(2) show ?thesis by (simp add: path_probe_reject(1)[OF probe_reject])
next
  case insert_fail
  from assms(2) show ?thesis by (simp add: path_insert_fail(1)[OF insert_fail])
next
  case (success written mp3 tx B seconds i)
  note run = path_success[OF success]
  let ?tp = "replace_ext (path f) ''-thumb.jpg''"
  let ?r = "\<lparr>oid = i, transcript = tx, thumbnail = base64_encode B,
             timestamp = new_Date e,
             metadata = \<lparr>originalName = originalname f, mimeType = mimetype f,
                         size_m = size_f f, duration = Some seconds\<rparr>\<rparr>"
  have "db (snd (upload_handler e (Some f) c0)) = db c0 @ [?r]" by (rule run(6))
  moreover have "fst (upload_handler e (Some f) c0) =
      Some \<lparr>status = 200, json = UploadOk tx (oid ?r)\<rparr>"
    unfolding run(1) by simp
  moreover have "get_recordings None (db (snd (upload_handler e (Some f) c0))) =
             \<lparr>status = 200,
              json = Recordings (list_recordings (db (snd (upload_handler e (Some f) c0))))\<rparr>"
    by (simp add: get_recordings_def)
  moreover have "?r \<in> set (list_recordings (db (snd (upload_handler e (Some f) c0))))"
    unfolding set_list_recordings run(6) by simp
  moreover have "\<exists>ev \<in> set (trace (snd (upload_handler e (Some f) c0))).
              ev_stage ev = ReadThumbnail \<and> ev_disk ev ?tp = Some B"
    unfolding run(3) using success(4) by (simp del: fun_upd_apply)
  moreover have "thumbnail ?r = base64_encode B" by simp
  moreover have "base64_decode (thumbnail ?r) = Some B" by (simp add: base64_roundtrip)
  ultimately show ?thesis by blast
qed

theorem C9_thumbnail_roundtrip_witness:
  "trace sample_ctx = [] \<and>
   map_option status (fst (upload_handler sample_env (Some sample_file) sample_ctx)) = Some 200 \<and>
   map thumbnail (db (snd (upload_handler sample_env (Some sample_file) sample_ctx))) = [''/9j/''] \<and>
   map (\<lambda>r. base64_decode (thumbnail r))
     (db (snd (upload_handler sample_env (Some sample_file) sample_ctx))) = [Some [255, 216, 255]]"
proof -
  have fresh: "trace sample_ctx = []" by (simp add: sample_ctx_def)
  have ok: "map_option status (fst (upload_handler sample_env (Some sample_file) sample_ctx))
      = Some 200"
    unfolding sample_run(1) by simp
  have stored: "map thumbnail (db (snd (upload_handler sample_env (Some sample_file) sample_ctx)))
      = [''/9j/'']"
    unfolding sample_run(6)
    by (simp add: sample_ctx_def b64_char_def b64_alphabet_def)
  from C9_thumbnail_roundtrip[OF fresh ok]
  obtain r B where added: "db (snd (upload_handler sample_env (Some sample_file) sample_ctx)) =
      db sample_ctx @ [r]"
    and decoded: "base64_decode (thumbnail r) = Some B"
    by blast
  from added stored have field: "thumbnail r = ''/9j/''"
    by (simp add: sample_ctx_def)
  from decoded field have "Some B = base64_decode ''/9j/''" by simp
  also have "\<dots> = Some [255, 216, 255]"
    by (simp add: b64_value_def b64_alphabet_def)
  finally have "base64_decode (thumbnail r) = Some [255, 216, 255]"
    using decoded by simp
  with added have "map (\<lambda>r. base64_decode (thumbnail r))
     (db (snd (upload_handler sample_env (Some sample_file) sample_ctx))) = [Some [255, 216, 255]]"
    by (simp add: sample_ctx_def)
  with fresh ok stored show ?thesis by simp
qed

section \<open>Validation at the boundary\<close>

lemma first_event:
  "\<exists>evs. trace (snd (upload_handler e (Some f) c)) =
           trace c @ Event Thumbnail [path f] (disk c) # evs"
proof (cases rule: upload_cases[where e=e and f=f and ?c0.0=c])
  case thumb_fail
  show ?thesis by (simp add: path_thumb_fail(3)[OF thumb_fail])
next
  case audio_fail
  show ?thesis by (simp add: path_audio_fail(3)[OF audio_fail])
next
  case transcribe_fail
  show ?thesis by (simp add: path_transcribe_fail(3)[OF transcribe_fail])
next
  case read_fail
  show ?thesis by (simp add: path_read_fail(3)[OF read_fail])
next
  case probe_crash
  show ?thesis by (simp add: path_probe_crash(3)[OF probe_crash])
next
  case probe_reject
  show ?thesis by (simp add: path_probe_reject(3)[OF probe_reject])
next
  case insert_fail
  show ?thesis by (simp add: path_insert_fail(3)[OF insert_fail])
next
  case success
  show ?thesis by (simp add: path_success(3)[OF success])
qed

text \<open>
  C7 at an empty upload. Nothing at the boundary looks at the size from below: the type
  filter sees the name and the type only, the limit caps the size from above, and the
  handler tests only that \<open>req.file\<close> is present. An upload of size 0 whose type the
  filter accepts is therefore not rejected: multer stores the empty file and reports
  size 0, the handler registers the path, and the thumbnail job is started on it.
\<close>

theorem C7_empty_upload_reaches_derivation:
  assumes "part_content part = []" and "fileFilter part = Inr True"
  shows "multer_single date_now (Some part) (disk c0) =
           Inr (Some \<lparr>originalname = part_originalname part, mimetype = part_mimetype part,
                      size_f = 0, path = ''uploads/'' @ filename date_now part\<rparr>,
                (disk c0)(''uploads/'' @ filename date_now part \<mapsto> [])) \<and>
         (\<exists>evs. trace (snd (post_upload e date_now (Some part) c0)) =
            trace c0 @
            Event Thumbnail [''uploads/'' @ filename date_now part]
              ((disk c0)(''uploads/'' @ filename date_now part \<mapsto> [])) # evs)"
proof -
  let ?p = "''uploads/'' @ filename date_now part"
  let ?f = "\<lparr>originalname = part_originalname part, mimetype = part_mimetype part,
            size_f = 0, path = ?p\<rparr>"
  let ?c = "c0\<lparr>disk := (disk c0)(?p \<mapsto> [])\<rparr>"
  have stored: "multer_single date_now (Some part) (disk c0) =
      Inr (Some ?f, (disk c0)(?p \<mapsto> []))"
    by (simp add: multer_single_def assms fileSize_limit_def Let_def)
  then have "post_upload e date_now (Some part) c0 = upload_handler e (Some ?f) ?c"
    by (simp add: post_upload_def)
  with first_event[of e ?f ?c] stored show ?thesis by simp
qed

theorem C7_empty_upload_reaches_derivation_witness:
  "part_content \<lparr>part_originalname = ''clip.webm'', part_mimetype = ''video/webm'',
                  part_content = []\<rparr> = [] \<and>
   fileFilter \<lparr>part_originalname = ''clip.webm'', part_mimetype = ''video/webm'',
               part_content = []\<rparr> = Inr True \<and>
   hd (trace (snd (post_upload
      (sample_env\<lparr>ffmpeg_screenshots := Inl (Error ''ffmpeg exited with code 1'' [])\<rparr>) 1
      (Some \<lparr>part_originalname = ''clip.webm'', part_mimetype = ''video/webm'',
              part_content = []\<rparr>) empty_ctx))) =
     Event Thumbnail [''uploads/1.webm''] [''uploads/1.webm'' \<mapsto> []] \<and>
   stages (snd (post_upload
      (sample_env\<lparr>ffmpeg_screenshots := Inl (Error ''ffmpeg exited with code 1'' [])\<rparr>) 1
      (Some \<lparr>part_originalname = ''clip.webm'', part_mimetype = ''video/webm'',
              part_content = []\<rparr>) empty_ctx)) = [Thumbnail, Cleanup] \<and>
   fst (post_upload
      (sample_env\<lparr>ffmpeg_screenshots := Inl (Error ''ffmpeg exited with code 1'' [])\<rparr>) 1
      (Some \<lparr>part_originalname = ''clip.webm'', part_mimetype = ''video/webm'',
              part_content = []\<rparr>) empty_ctx) =
     Some \<lparr>status = 500,
           json = Failure ''Upload failed'' (Some ''ffmpeg exited with code 1'')\<rparr>"
proof -
  let ?e = "sample_env\<lparr>ffmpeg_screenshots := Inl (Error ''ffmpeg exited with code 1'' [])\<rparr>"
  let ?part = "\<lparr>part_originalname = ''clip.webm'', part_mimetype = ''video/webm'',
              part_content = []\<rparr>"
  let ?f = "\<lparr>originalname = ''clip.webm'', mimetype = ''video/webm'', size_f = 0,
            path = ''uploads/1.webm''\<rparr>"
  have size0: "part_content ?part = []" by simp
  have accepted: "fileFilter ?part = Inr True"
    by (simp add: fileFilter_def validTypes_def)
  have name: "''uploads/'' @ filename 1 ?part = ''uploads/1.webm''"
    by (simp add: filename_def startsWith_def show_nat.simps digit_char_def)
  note reached = C7_empty_upload_reaches_derivation[OF size0 accepted, of 1 empty_ctx ?e]
  from reached have stored: "multer_single 1 (Some ?part) (disk empty_ctx) =
      Inr (Some ?f, [''uploads/1.webm'' \<mapsto> []])"
    unfolding name by (simp add: empty_ctx_def)
  from reached obtain evs where "trace (snd (post_upload ?e 1 (Some ?part) empty_ctx)) =
      trace empty_ctx @
      Event Thumbnail [''uploads/'' @ filename 1 ?part]
        ((disk empty_ctx)(''uploads/'' @ filename 1 ?part \<mapsto> [])) # evs"
    by blast
  then have first: "hd (trace (snd (post_upload ?e 1 (Some ?part) empty_ctx))) =
      Event Thumbnail [''uploads/1.webm''] [''uploads/1.webm'' \<mapsto> []]"
    unfolding name by (simp add: empty_ctx_def)
  have answer: "ffmpeg_screenshots ?e = Inl (Error ''ffmpeg exited with code 1'' [])"
    by simp
  note run = path_thumb_fail[OF answer]
  have route: "post_upload ?e 1 (Some ?part) empty_ctx =
      upload_handler ?e (Some ?f) (empty_ctx\<lparr>disk := [''uploads/1.webm'' \<mapsto> []]\<rparr>)"
    unfolding post_upload_def stored by simp
  have rest: "stages (snd (post_upload ?e 1 (Some ?part) empty_ctx)) = [Thumbnail, Cleanup]"
    "fst (post_upload ?e 1 (Some ?part) empty_ctx) =
       Some \<lparr>status = 500,
             json = Failure ''Upload failed'' (Some ''ffmpeg exited with code 1'')\<rparr>"
    unfolding route stages_def run(1) run(3) by (simp_all add: empty_ctx_def)
  from size0 accepted first rest show ?thesis by simp
qed

text \<open>
  What the handler does refuse before any stage: a request that carries no file. The
  answer is 400, no stage runs, and the disk and the collection are as they were.
\<close>

lemma missing_file_is_rejected:
  "post_upload e date_now None c0 =
     (Some \<lparr>status = 400, json = Failure ''No video file provided'' None\<rparr>, c0\<lparr>files := []\<rparr>)"
  by (simp add: post_upload_def multer_single_def upload_handler_def)

section \<open>Deleting by id\<close>

lemma deleteOne_absent: "x \<notin> oid ` set docs \<Longrightarrow> deleteOne x docs = (0, docs)"
  by (induction docs) auto

lemma deleteOne_present:
  "x \<in> oid ` set docs \<Longrightarrow>
   \<exists>before d after. docs = before @ d # after \<and> oid d = x \<and> x \<notin> oid ` set before \<and>
                     deleteOne x docs = (1, before @ after)"
proof (induction docs)
  case Nil
  then show ?case by simp
next
  case (Cons d docs)
  show ?case
  proof (cases "oid d = x")
    case True
    then have "d # docs = [] @ d # docs \<and> oid d = x \<and> x \<notin> oid ` set [] \<and>
        deleteOne x (d # docs) = (1, [] @ docs)"
      by simp
    then show ?thesis by blast
  next
    case False
    with Cons.prems have "x \<in> oid ` set docs" by auto
    from Cons.IH[OF this] obtain before d' after where
      split: "docs = before @ d' # after" "oid d' = x" "x \<notin> oid ` set before"
      and del: "deleteOne x docs = (1, before @ after)"
      by blast
    from split del False have "d # docs = (d # before) @ d' # after \<and> oid d' = x \<and>
        x \<notin> oid ` set (d # before) \<and> deleteOne x (d # docs) = (1, (d # before) @ after)"
      by auto
    then show ?thesis by blast
  qed
qed

text \<open>
  C6 at an id the constructor refuses. Whenever \<open>new MongoClient.ObjectId(id)\<close> throws,
  the handler's \<open>catch\<close> answers 500 \<open>Failed to delete recording\<close>; the answer 404
  \<open>Recording not found\<close> is not reached, and the collection is as it was.
\<close>

theorem C6_refused_id_is_a_server_error:
  assumes "new_ObjectId id_param = Inl err"
  shows "delete_recording new_ObjectId deleteOne_error id_param docs =
           (\<lparr>status = 500, json = Failure ''Failed to delete recording'' None\<rparr>, docs)"
  using assms by (simp add: delete_recording_def)

theorem C6_refused_id_is_a_server_error_witness:
  "strict_ObjectId ''does-not-exist'' = Inl (Error ''input must be a 24 character hex string'' []) \<and>
   delete_recording strict_ObjectId None ''does-not-exist'' [sample_recording] =
     (\<lparr>status = 500, json = Failure ''Failed to delete recording'' None\<rparr>, [sample_recording])"
proof -
  have refused: "strict_ObjectId ''does-not-exist'' =
      Inl (Error ''input must be a 24 character hex string'' [])"
    by (simp add: strict_ObjectId_def)
  from C6_refused_id_is_a_server_error
         [of strict_ObjectId "''does-not-exist''" _ None "[sample_recording]", OF refused]
       refused
  show ?thesis by simp
qed

text \<open>
  For an id that the constructor accepts and a store that answers, the handler does what
  the endpoint is meant to do: the first document with that id is removed and the answer
  is a success, or no document has that id, the answer is 404 and nothing changes.
\<close>

lemma delete_recording_accepted_id:
  assumes "new_ObjectId id_param = Inr x"
  shows "x \<notin> oid ` set docs \<Longrightarrow>
           delete_recording new_ObjectId None id_param docs =
             (\<lparr>status = 404, json = Failure ''Recording not found'' None\<rparr>, docs)"
    and "x \<in> oid ` set docs \<Longrightarrow>
           \<exists>before d after. docs = before @ d # after \<and> oid d = x \<and>
             delete_recording new_ObjectId None id_param docs =
               (\<lparr>status = 200, json = DeleteOk\<rparr>, before @ after)"
proof -
  show "delete_recording new_ObjectId None id_param docs =
          (\<lparr>status = 404, json = Failure ''Recording not found'' None\<rparr>, docs)"
    if "x \<notin> oid ` set docs"
    using assms deleteOne_absent[OF that] by (simp add: delete_recording_def)
  show "\<exists>before d after. docs = before @ d # after \<and> oid d = x \<and>
          delete_recording new_ObjectId None id_param docs =
            (\<lparr>status = 200, json = DeleteOk\<rparr>, before @ after)"
    if "x \<in> oid ` set docs"
  proof -
    from deleteOne_present[OF that] obtain before d after where
      "docs = before @ d # after" "oid d = x" "deleteOne x docs = (1, before @ after)"
      by blast
    with assms have "docs = before @ d # after \<and> oid d = x \<and>
        delete_recording new_ObjectId None id_param docs =
          (\<lparr>status = 200, json = DeleteOk\<rparr>, before @ after)"
      by (simp add: delete_recording_def)
    then show ?thesis by blast
  qed
qed

end
